theory Spec2Isabelle
  imports Complex_Main
begin

section \<open>Legacy JSON values as Python sees them\<close>

text \<open>
  The value \<^verbatim>\<open>json.loads(..., object_pairs_hook=collections.OrderedDict)\<close> returns.
  \<open>JNull\<close> is Python's \<^verbatim>\<open>None\<close>, which is also what \<^verbatim>\<open>dict.get\<close> gives for a missing
  key and what \<^verbatim>\<open>read_textblock_json\<close> returns for an absent attachment. \<open>JObject\<close>
  carries the items of the \<^verbatim>\<open>OrderedDict\<close> in insertion order. Python floats are
  modelled as reals: rounding is not modelled.
\<close>

datatype json =
    JNull
  | JBool bool
  | JInt int
  | JFloat real
  | JString string
  | JArray "json list"
  | JObject "(string \<times> json) list"

text \<open>\<^verbatim>\<open>isinstance(v, bool)\<close>.\<close>

fun is_bool :: "json \<Rightarrow> bool" where
  "is_bool (JBool b) = True"
| "is_bool v = False"

text \<open>
  \<^verbatim>\<open>isinstance(v, (int, float))\<close>. Python's \<^verbatim>\<open>bool\<close> is a subclass of
  \<^verbatim>\<open>int\<close>, so \<^verbatim>\<open>True\<close> and \<^verbatim>\<open>False\<close> pass this test.
\<close>

fun is_int_or_float :: "json \<Rightarrow> bool" where
  "is_int_or_float (JInt i) = True"
| "is_int_or_float (JFloat r) = True"
| "is_int_or_float (JBool b) = True"
| "is_int_or_float v = False"

text \<open>
  The number a float property holds after a value that passed
  \<^verbatim>\<open>isinstance(v, (int, float))\<close> was assigned to it.
\<close>

fun to_float :: "json \<Rightarrow> real" where
  "to_float (JInt i) = of_int i"
| "to_float (JFloat r) = r"
| "to_float (JBool b) = (if b then 1 else 0)"
| "to_float v = 0"

text \<open>
  \<^verbatim>\<open>isinstance(v, abc.Iterable)\<close> with the sequence \<^verbatim>\<open>for x in v\<close> walks: the
  elements of a list, the keys of a dict, the characters of a string.
\<close>

fun iterate :: "json \<Rightarrow> json list option" where
  "iterate (JArray xs) = Some xs"
| "iterate (JObject kvs) = Some (map (\<lambda>kv. JString (fst kv)) kvs)"
| "iterate (JString s) = Some (map (\<lambda>c. JString [c]) s)"
| "iterate v = None"

text \<open>\<^verbatim>\<open>d.get(key)\<close> on a dict: \<^verbatim>\<open>None\<close> when the key is missing.\<close>

definition dict_get :: "(string \<times> json) list \<Rightarrow> string \<Rightarrow> json" where
  "dict_get d key = (case map_of d key of None \<Rightarrow> JNull | Some v \<Rightarrow> v)"

section \<open>The rig and the host's entity stores\<close>

text \<open>A text attachment (\<^verbatim>\<open>bpy.types.Text\<close>): the bodies of its lines.\<close>

record text_block =
  tb_lines :: "string list"

text \<open>
  The value of a custom attribute (\<^verbatim>\<open>armature.get(key)\<close>,
  \<^verbatim>\<open>armature.data.get(key)\<close>): a string, a pointer to a text attachment, or
  something else (a number).
\<close>

datatype idprop =
    PropStr string
  | PropText text_block
  | PropInt int
  | PropFloat real

text \<open>A child object of the rig, with the attributes the collider scan reads.\<close>

record child_object =
  ob_name :: string
  ob_type :: string
  ob_empty_display_type :: string
  ob_parent_type :: string
  ob_parent_bone :: string

text \<open>
  A mesh of \<^verbatim>\<open>bpy.data.meshes\<close>: \<open>mesh_shape_keys\<close> is \<open>None\<close> when
  \<^verbatim>\<open>mesh.shape_keys\<close> is \<^verbatim>\<open>None\<close>, otherwise the names in
  \<^verbatim>\<open>mesh.shape_keys.key_blocks\<close>.
\<close>

record mesh =
  mesh_name :: string
  mesh_shape_keys :: "string list option"

text \<open>
  What the migration reads and never writes: the rig object's custom attributes, the
  custom attributes of its armature data, the armature data's name and bones, the rig's
  children, and the stores \<^verbatim>\<open>bpy.data.texts\<close>, \<^verbatim>\<open>bpy.data.images\<close>,
  \<^verbatim>\<open>bpy.data.meshes\<close> and \<^verbatim>\<open>bpy.data.materials\<close>.
\<close>

record rig =
  rig_custom :: "(string \<times> idprop) list"
  rig_data_custom :: "(string \<times> idprop) list"
  rig_data_name :: string
  rig_bones :: "string list"
  rig_children :: "child_object list"
  data_texts :: "(string \<times> text_block) list"
  data_images :: "string list"
  data_meshes :: "(string \<times> mesh) list"
  data_materials :: "string list"

text \<open>\<^verbatim>\<open>armature.get(key)\<close> and \<^verbatim>\<open>armature.data.get(key)\<close>.\<close>

definition armature_get :: "rig \<Rightarrow> string \<Rightarrow> idprop option" where
  "armature_get armature key = map_of (rig_custom armature) key"

definition armature_data_get :: "rig \<Rightarrow> string \<Rightarrow> idprop option" where
  "armature_data_get armature key = map_of (rig_data_custom armature) key"

section \<open>Errors\<close>

text \<open>
  The exceptions that can leave the migration. \<open>TypeError\<close> is what the host raises
  when a value that is not a string is assigned to a string property, when an integer
  beyond the range of a float is assigned to a float property, or when a key that is
  not a string is tested for membership in a \<^verbatim>\<open>bpy.data\<close> collection;
  \<open>AttributeError\<close> comes from \<^verbatim>\<open>mesh.shape_keys.key_blocks\<close> on a mesh without
  shape keys; \<open>LoadsError\<close> is any exception of \<^verbatim>\<open>json.loads\<close> other than
  \<^verbatim>\<open>JSONDecodeError\<close> (a \<^verbatim>\<open>RecursionError\<close> on deeply nested text, for one).
  A result \<open>Inl e\<close> is the exception \<open>e\<close> leaving the function; the model keeps the
  exception, not the partly migrated records.
\<close>

datatype error = TypeError | AttributeError | LoadsError

text \<open>Sequencing of steps that can raise: the first exception ends the sequence.\<close>

definition and_then :: "error + 'a \<Rightarrow> ('a \<Rightarrow> error + 'b) \<Rightarrow> error + 'b" where
  "and_then r f = (case r of Inl e \<Rightarrow> Inl e | Inr x \<Rightarrow> f x)"

text \<open>What \<^verbatim>\<open>json.loads\<close> does with a text.\<close>

datatype loads_result = Parsed json | JSONDecodeError | OtherError

section \<open>The normalized VRM0 document\<close>

text \<open>
  One record per property group the migration writes. A reference by name
  (\<^verbatim>\<open>node.value\<close>, \<^verbatim>\<open>mesh.value\<close>, \<^verbatim>\<open>center.value\<close>) is the string it
  holds; a pointer (\<^verbatim>\<open>meta.texture\<close>, \<^verbatim>\<open>material_value.material\<close>) is the name
  of the entity it points to, or \<open>None\<close>.
\<close>

record meta =
  meta_allowed_user_name :: string
  meta_author :: string
  meta_commercial_ussage_name :: string
  meta_contact_information :: string
  meta_license_name :: string
  meta_other_license_url :: string
  meta_other_permission_url :: string
  meta_reference :: string
  meta_sexual_ussage_name :: string
  meta_title :: string
  meta_version :: string
  meta_violent_ussage_name :: string
  meta_texture :: "string option"

record human_bone =
  hb_bone :: string
  hb_node :: string

record humanoid =
  hum_human_bones :: "human_bone list"
  hum_arm_stretch :: real
  hum_leg_stretch :: real
  hum_upper_arm_twist :: real
  hum_lower_arm_twist :: real
  hum_upper_leg_twist :: real
  hum_lower_leg_twist :: real
  hum_feet_spacing :: real
  hum_has_translation_dof :: bool
  hum_last_bone_names :: "string list"

record mesh_annotation =
  ma_mesh :: string
  ma_first_person_flag :: string

record look_at =
  la_curve :: "real list"
  la_x_range :: real
  la_y_range :: real

record first_person =
  fp_first_person_bone :: string
  fp_first_person_bone_offset :: "real \<times> real \<times> real"
  fp_mesh_annotations :: "mesh_annotation list"
  fp_look_at_type_name :: string
  fp_look_at_horizontal_inner :: look_at
  fp_look_at_horizontal_outer :: look_at
  fp_look_at_vertical_down :: look_at
  fp_look_at_vertical_up :: look_at

record bind =
  bind_mesh :: string
  bind_index :: string
  bind_weight :: real

record material_value =
  mv_material :: "string option"
  mv_property_name :: string
  mv_target_value :: "real list"

record blend_shape_group =
  bsg_name :: string
  bsg_preset_name :: string
  bsg_binds :: "bind list"
  bsg_material_values :: "material_value list"
  bsg_is_binary :: bool

text \<open>
  A collider wraps the marker object it was made from. \<open>cg_uuid\<close> is the number of
  the draw from \<^verbatim>\<open>uuid.uuid4()\<close> that produced the identifier: the source of
  identifiers is modelled as a counter, so two draws never give the same one.
\<close>

record collider =
  col_blender_object :: "child_object option"

record collider_group =
  cg_uuid :: nat
  cg_name :: string
  cg_node :: string
  cg_colliders :: "collider list"

record bone_group =
  bg_comment :: string
  bg_stiffiness :: real
  bg_gravity_power :: real
  bg_gravity_dir :: "real \<times> real \<times> real"
  bg_drag_force :: real
  bg_center :: string
  bg_hit_radius :: real
  bg_bones :: "string list"
  bg_collider_groups :: "string list"

record secondary_animation =
  sa_collider_groups :: "collider_group list"
  sa_bone_groups :: "bone_group list"

record vrm0 =
  vrm0_meta :: meta
  vrm0_humanoid :: humanoid
  vrm0_first_person :: first_person
  vrm0_blend_shape_groups :: "blend_shape_group list"
  vrm0_secondary_animation :: secondary_animation

text \<open>
  \<^verbatim>\<open>VrmAddonArmatureExtensionPropertyGroup\<close>, with the fields the migration touches.
  \<open>uuid_counter\<close> is the state of the identifier source: the number of identifiers
  drawn so far.
\<close>

record extension =
  addon_version :: "int \<times> int \<times> int"
  ext_vrm0 :: vrm0
  uuid_counter :: nat

section \<open>Collaborators declared outside these sources\<close>

text \<open>
  The migration calls code of the addon and of the host that is not part of the sources
  at hand. Each such collaborator is a parameter of the model:
  \<^item> \<open>json_loads\<close>: Python's \<^verbatim>\<open>json.loads\<close> with the \<^verbatim>\<open>OrderedDict\<close> hook;
  \<^item> \<open>vrm_json_vector3_to_tuple\<close>, \<open>vrm_json_curve_to_list\<close>: the functions of
    \<^verbatim>\<open>common.convert\<close>, \<open>None\<close> when they return \<^verbatim>\<open>None\<close>;
  \<^item> \<open>all_names\<close>: \<^verbatim>\<open>HumanBoneSpecifications.all_names\<close>, the closed set of roles
    in traversal order;
  \<^item> \<open>fixup_human_bones\<close>: \<^verbatim>\<open>Vrm0HumanoidPropertyGroup.fixup_human_bones\<close>, acting
    on the humanoid's list of role entries;
  \<^item> \<open>check_last_bone_names_and_update\<close>: the content of the cache of last known bone
    names after \<^verbatim>\<open>Vrm0HumanoidPropertyGroup.check_last_bone_names_and_update\<close> ran,
    not deferred, on a cleared cache;
  \<^item> \<open>collider_group_refresh\<close>, \<open>bone_group_refresh\<close>: the \<^verbatim>\<open>refresh\<close> methods of
    a collider group and of a bone group, acting on the record they are called on;
  \<^item> \<open>new_...\<close>: the record \<^verbatim>\<open>collection.add()\<close> appends, holding the declared
    defaults of its properties;
  \<^item> \<open>float_accepts\<close>: whether the host converts a Python \<^verbatim>\<open>int\<close> that is assigned
    to a float property; it refuses an \<^verbatim>\<open>int\<close> beyond the range of a float, and the
    assignment then raises \<^verbatim>\<open>TypeError\<close>;
  \<^item> \<open>float_property\<close>: the number the float property of the given name holds after
    a number was assigned to it (the host rounds the number to 32 bits and clamps it to
    the range declared for the property).

  The declarations of the property groups are outside the sources as well. A property
  that the migration assigns a string to is taken to be a string property, which takes
  every string and raises \<^verbatim>\<open>TypeError\<close> on any other value; a property it assigns a
  number to is a float property.
\<close>

record host =
  json_loads :: "string \<Rightarrow> loads_result"
  vrm_json_vector3_to_tuple :: "json \<Rightarrow> (real \<times> real \<times> real) option"
  vrm_json_curve_to_list :: "json \<Rightarrow> real list option"
  all_names :: "string list"
  fixup_human_bones :: "rig \<Rightarrow> human_bone list \<Rightarrow> human_bone list"
  check_last_bone_names_and_update :: "rig \<Rightarrow> string list"
  collider_group_refresh :: "rig \<Rightarrow> collider_group \<Rightarrow> collider_group"
  bone_group_refresh :: "rig \<Rightarrow> bone_group \<Rightarrow> bone_group"
  new_mesh_annotation :: mesh_annotation
  new_blend_shape_group :: blend_shape_group
  new_bind :: bind
  new_material_value :: material_value
  new_collider_group :: collider_group
  new_bone_group :: bone_group
  float_accepts :: "int \<Rightarrow> bool"
  float_property :: "string \<Rightarrow> real \<Rightarrow> real"

text \<open>
  \<^verbatim>\<open>collection.add()\<close>: the new record holds the declared defaults, and its own
  collections are empty.
\<close>

definition add_blend_shape_group :: "host \<Rightarrow> blend_shape_group" where
  "add_blend_shape_group H = (new_blend_shape_group H)\<lparr>bsg_binds := [], bsg_material_values := []\<rparr>"

definition add_material_value :: "host \<Rightarrow> material_value" where
  "add_material_value H = (new_material_value H)\<lparr>mv_target_value := []\<rparr>"

definition add_collider_group :: "host \<Rightarrow> collider_group" where
  "add_collider_group H = (new_collider_group H)\<lparr>cg_colliders := []\<rparr>"

definition add_bone_group :: "host \<Rightarrow> bone_group" where
  "add_bone_group H = (new_bone_group H)\<lparr>bg_bones := [], bg_collider_groups := []\<rparr>"

section \<open>The legacy data reader\<close>

text \<open>
  \<^verbatim>\<open>read_textblock_json\<close>. The attribute is a text attachment, or a string naming
  one in \<^verbatim>\<open>bpy.data.texts\<close>; anything else returns \<^verbatim>\<open>None\<close>. The bodies of the
  lines are joined and parsed; \<^verbatim>\<open>contextlib.suppress(json.JSONDecodeError)\<close> turns
  that one exception into \<^verbatim>\<open>None\<close>.
\<close>

definition read_textblock_json :: "host \<Rightarrow> rig \<Rightarrow> string \<Rightarrow> error + json" where
  "read_textblock_json H armature armature_key =
     (let text_key = armature_get armature armature_key;
          textblock =
            (case text_key of
               Some (PropText t) \<Rightarrow> Some t
             | Some (PropStr k) \<Rightarrow> map_of (data_texts armature) k
             | _ \<Rightarrow> None)
      in case textblock of
           None \<Rightarrow> Inr JNull
         | Some t \<Rightarrow>
             (case json_loads H (concat (tb_lines t)) of
                Parsed v \<Rightarrow> Inr v
              | JSONDecodeError \<Rightarrow> Inr JNull
              | OtherError \<Rightarrow> Inl LoadsError))"

section \<open>The field migrators\<close>

subsection \<open>Meta\<close>

text \<open>
  \<^verbatim>\<open>x = armature.get(key)\<close> followed by \<^verbatim>\<open>isinstance(x, str)\<close>: the string, when
  the attribute is one.
\<close>

definition str_attribute :: "rig \<Rightarrow> string \<Rightarrow> string option" where
  "str_attribute armature key =
     (case armature_get armature key of Some (PropStr s) \<Rightarrow> Some s | _ \<Rightarrow> None)"

text \<open>
  \<^verbatim>\<open>migrate_vrm0_meta\<close>. The last step tests \<^verbatim>\<open>texture in bpy.data.images\<close> for
  any attribute that is not \<^verbatim>\<open>None\<close>; the host's collections raise \<^verbatim>\<open>TypeError\<close>
  on a key that is not a string.
\<close>

definition migrate_vrm0_meta :: "rig \<Rightarrow> meta \<Rightarrow> error + meta" where
  "migrate_vrm0_meta armature meta0 =
     (let m1 = (case str_attribute armature ''allowedUserName'' of
                  Some s \<Rightarrow> meta0\<lparr>meta_allowed_user_name := s\<rparr> | None \<Rightarrow> meta0);
          m2 = (case str_attribute armature ''author'' of
                  Some s \<Rightarrow> m1\<lparr>meta_author := s\<rparr> | None \<Rightarrow> m1);
          m3 = (case str_attribute armature ''commercialUssageName'' of
                  Some s \<Rightarrow> m2\<lparr>meta_commercial_ussage_name := s\<rparr> | None \<Rightarrow> m2);
          m4 = (case str_attribute armature ''contactInformation'' of
                  Some s \<Rightarrow> m3\<lparr>meta_contact_information := s\<rparr> | None \<Rightarrow> m3);
          m5 = (case str_attribute armature ''licenseName'' of
                  Some s \<Rightarrow> m4\<lparr>meta_license_name := s\<rparr> | None \<Rightarrow> m4);
          m6 = (case str_attribute armature ''otherLicenseUrl'' of
                  Some s \<Rightarrow> m5\<lparr>meta_other_license_url := s\<rparr> | None \<Rightarrow> m5);
          m7 = (case str_attribute armature ''otherPermissionUrl'' of
                  Some s \<Rightarrow> m6\<lparr>meta_other_permission_url := s\<rparr> | None \<Rightarrow> m6);
          m8 = (case str_attribute armature ''reference'' of
                  Some s \<Rightarrow> m7\<lparr>meta_reference := s\<rparr> | None \<Rightarrow> m7);
          m9 = (case str_attribute armature ''sexualUssageName'' of
                  Some s \<Rightarrow> m8\<lparr>meta_sexual_ussage_name := s\<rparr> | None \<Rightarrow> m8);
          m10 = (case str_attribute armature ''title'' of
                  Some s \<Rightarrow> m9\<lparr>meta_title := s\<rparr> | None \<Rightarrow> m9);
          m11 = (case str_attribute armature ''version'' of
                  Some s \<Rightarrow> m10\<lparr>meta_version := s\<rparr> | None \<Rightarrow> m10);
          m12 = (case str_attribute armature ''violentUssageName'' of
                  Some s \<Rightarrow> m11\<lparr>meta_violent_ussage_name := s\<rparr> | None \<Rightarrow> m11)
      in case armature_get armature ''texture'' of
           None \<Rightarrow> Inr m12
         | Some (PropStr texture) \<Rightarrow>
             (if texture \<in> set (data_images armature)
              then Inr (m12\<lparr>meta_texture := Some texture\<rparr>) else Inr m12)
         | Some _ \<Rightarrow> Inl TypeError)"

subsection \<open>Humanoid\<close>

text \<open>
  Whether the host takes the value for a float property: every \<^verbatim>\<open>float\<close> and
  \<^verbatim>\<open>bool\<close>, and the \<^verbatim>\<open>int\<close>s it can convert.
\<close>

definition assignable :: "host \<Rightarrow> json \<Rightarrow> bool" where
  "assignable H v = (case v of JInt i \<Rightarrow> float_accepts H i | _ \<Rightarrow> True)"

text \<open>
  \<^verbatim>\<open>x = d.get(key)\<close>, \<^verbatim>\<open>if isinstance(x, (int, float)): record.field = x\<close>, with the
  name of the float property and with the assignment given as an update of the record.
  The assignment raises \<^verbatim>\<open>TypeError\<close> when the host cannot convert the value.
\<close>

definition assign_number ::
  "host \<Rightarrow> string \<Rightarrow> json \<Rightarrow> (real \<Rightarrow> 'a \<Rightarrow> 'a) \<Rightarrow> 'a \<Rightarrow> error + 'a" where
  "assign_number H property v assign r =
     (if is_int_or_float v
      then (if assignable H v
            then Inr (assign (float_property H property (to_float v)) r)
            else Inl TypeError)
      else Inr r)"

text \<open>
  The same for \<^verbatim>\<open>isinstance(x, str)\<close> and \<^verbatim>\<open>isinstance(x, bool)\<close>; these
  assignments do not raise.
\<close>

definition assign_str :: "json \<Rightarrow> (string \<Rightarrow> 'a \<Rightarrow> 'a) \<Rightarrow> 'a \<Rightarrow> 'a" where
  "assign_str v assign r = (case v of JString s \<Rightarrow> assign s r | _ \<Rightarrow> r)"

definition assign_bool :: "json \<Rightarrow> (bool \<Rightarrow> 'a \<Rightarrow> 'a) \<Rightarrow> 'a \<Rightarrow> 'a" where
  "assign_bool v assign r = (case v of JBool b \<Rightarrow> assign b r | _ \<Rightarrow> r)"

text \<open>
  What a float vector property holds after a tuple was assigned: every component is
  kept as a float property keeps a number.
\<close>

definition vector_property ::
  "host \<Rightarrow> string \<Rightarrow> real \<times> real \<times> real \<Rightarrow> real \<times> real \<times> real" where
  "vector_property H property v =
     (case v of (a, b, c) \<Rightarrow>
        (float_property H property a, float_property H property b,
         float_property H property c))"

text \<open>\<^verbatim>\<open>migrate_vrm0_humanoid\<close>: nothing happens unless the input is a dict.\<close>

definition migrate_vrm0_humanoid :: "host \<Rightarrow> humanoid \<Rightarrow> json \<Rightarrow> error + humanoid" where
  "migrate_vrm0_humanoid H humanoid humanoid_dict =
     (case humanoid_dict of
        JObject d \<Rightarrow>
          and_then (assign_number H ''arm_stretch'' (dict_get d ''armStretch'')
                      (\<lambda>x h. h\<lparr>hum_arm_stretch := x\<rparr>) humanoid) (\<lambda>h1.
          and_then (assign_number H ''leg_stretch'' (dict_get d ''legStretch'')
                      (\<lambda>x h. h\<lparr>hum_leg_stretch := x\<rparr>) h1) (\<lambda>h2.
          and_then (assign_number H ''upper_arm_twist'' (dict_get d ''upperArmTwist'')
                      (\<lambda>x h. h\<lparr>hum_upper_arm_twist := x\<rparr>) h2) (\<lambda>h3.
          and_then (assign_number H ''lower_arm_twist'' (dict_get d ''lowerArmTwist'')
                      (\<lambda>x h. h\<lparr>hum_lower_arm_twist := x\<rparr>) h3) (\<lambda>h4.
          and_then (assign_number H ''upper_leg_twist'' (dict_get d ''upperLegTwist'')
                      (\<lambda>x h. h\<lparr>hum_upper_leg_twist := x\<rparr>) h4) (\<lambda>h5.
          and_then (assign_number H ''lower_leg_twist'' (dict_get d ''lowerLegTwist'')
                      (\<lambda>x h. h\<lparr>hum_lower_leg_twist := x\<rparr>) h5) (\<lambda>h6.
          and_then (assign_number H ''feet_spacing'' (dict_get d ''feetSpacing'')
                      (\<lambda>x h. h\<lparr>hum_feet_spacing := x\<rparr>) h6) (\<lambda>h7.
            Inr (assign_bool (dict_get d ''hasTranslationDoF'')
                   (\<lambda>b h. h\<lparr>hum_has_translation_dof := b\<rparr>) h7))))))))
      | _ \<Rightarrow> Inr humanoid)"

subsection \<open>First person\<close>

text \<open>
  The body of the loop over \<^verbatim>\<open>meshAnnotations\<close>: a record is added for every element,
  and filled only when the element is a dict.
\<close>

definition migrate_mesh_annotation :: "host \<Rightarrow> rig \<Rightarrow> json \<Rightarrow> mesh_annotation" where
  "migrate_mesh_annotation H armature mesh_annotation_dict =
     (case mesh_annotation_dict of
        JObject d \<Rightarrow>
          (let a1 = (case dict_get d ''mesh'' of
                       JString mesh \<Rightarrow>
                         (case map_of (data_meshes armature) mesh of
                            Some m \<Rightarrow> (new_mesh_annotation H)\<lparr>ma_mesh := mesh_name m\<rparr>
                          | None \<Rightarrow> new_mesh_annotation H)
                     | _ \<Rightarrow> new_mesh_annotation H)
           in assign_str (dict_get d ''firstPersonFlag'')
                (\<lambda>s a. a\<lparr>ma_first_person_flag := s\<rparr>) a1)
      | _ \<Rightarrow> new_mesh_annotation H)"

text \<open>The body of the loop over the four look-at ranges.\<close>

definition migrate_look_at :: "host \<Rightarrow> look_at \<Rightarrow> json \<Rightarrow> error + look_at" where
  "migrate_look_at H look_at look_at_dict =
     (case look_at_dict of
        JObject d \<Rightarrow>
          (let l1 = (case vrm_json_curve_to_list H (dict_get d ''curve'') of
                       Some curve \<Rightarrow> look_at\<lparr>la_curve := map (float_property H ''curve'') curve\<rparr>
                     | None \<Rightarrow> look_at)
           in and_then (assign_number H ''x_range'' (dict_get d ''xRange'')
                          (\<lambda>x l. l\<lparr>la_x_range := x\<rparr>) l1) (\<lambda>l2.
                assign_number H ''y_range'' (dict_get d ''yRange'')
                  (\<lambda>x l. l\<lparr>la_y_range := x\<rparr>) l2))
      | _ \<Rightarrow> Inr look_at)"

text \<open>
  The steps of \<^verbatim>\<open>migrate_vrm0_first_person\<close> before the look-at ranges, on the
  items of the dict: the bone, the offset, the mesh annotations and the look-at type.
  The offset is stored with its second and third components exchanged
  (\<^verbatim>\<open>(x, y, z) = offset\<close>, then \<^verbatim>\<open>(x, z, y)\<close>). None of these steps raises.
\<close>

definition migrate_first_person_fields ::
  "host \<Rightarrow> rig \<Rightarrow> first_person \<Rightarrow> (string \<times> json) list \<Rightarrow> first_person" where
  "migrate_first_person_fields H armature first_person d =
     (let f1 = assign_str (dict_get d ''firstPersonBone'')
                 (\<lambda>s f. f\<lparr>fp_first_person_bone := s\<rparr>) first_person;
          f2 = (case vrm_json_vector3_to_tuple H (dict_get d ''firstPersonBoneOffset'') of
                  Some (x, y, z) \<Rightarrow>
                    f1\<lparr>fp_first_person_bone_offset :=
                          vector_property H ''first_person_bone_offset'' (x, z, y)\<rparr>
                | None \<Rightarrow> f1);
          f3 = (case iterate (dict_get d ''meshAnnotations'') of
                  Some mesh_annotation_dicts \<Rightarrow>
                    f2\<lparr>fp_mesh_annotations := fp_mesh_annotations f2 @
                          map (migrate_mesh_annotation H armature) mesh_annotation_dicts\<rparr>
                | None \<Rightarrow> f2);
          look_at_type_name = dict_get d ''lookAtTypeName''
      in if look_at_type_name = JString ''Bone''
            \<or> look_at_type_name = JString ''BlendShape''
         then assign_str look_at_type_name (\<lambda>s f. f\<lparr>fp_look_at_type_name := s\<rparr>) f3
         else f3)"

text \<open>
  \<^verbatim>\<open>migrate_vrm0_first_person\<close>: nothing happens unless the input is a dict; after
  the steps above come the four look-at ranges, the only steps that can raise.
\<close>

definition migrate_vrm0_first_person ::
  "host \<Rightarrow> rig \<Rightarrow> first_person \<Rightarrow> json \<Rightarrow> error + first_person" where
  "migrate_vrm0_first_person H armature first_person first_person_dict =
     (case first_person_dict of
        JObject d \<Rightarrow>
          (let f4 = migrate_first_person_fields H armature first_person d
           in and_then (migrate_look_at H (fp_look_at_horizontal_inner f4)
                          (dict_get d ''lookAtHorizontalInner'')) (\<lambda>inner.
              and_then (migrate_look_at H (fp_look_at_horizontal_outer f4)
                          (dict_get d ''lookAtHorizontalOuter'')) (\<lambda>outer.
              and_then (migrate_look_at H (fp_look_at_vertical_down f4)
                          (dict_get d ''lookAtVerticalDown'')) (\<lambda>down.
              and_then (migrate_look_at H (fp_look_at_vertical_up f4)
                          (dict_get d ''lookAtVerticalUp'')) (\<lambda>up.
                Inr (f4\<lparr>fp_look_at_horizontal_inner := inner,
                         fp_look_at_horizontal_outer := outer,
                         fp_look_at_vertical_down := down,
                         fp_look_at_vertical_up := up\<rparr>))))))
      | _ \<Rightarrow> Inr first_person)"

subsection \<open>Blend shape groups\<close>

text \<open>
  A loop whose body can raise: the records made so far are kept in order, and the first
  exception ends the loop and leaves the migrator.
\<close>

fun for_each :: "('a \<Rightarrow> error + 'b) \<Rightarrow> 'a list \<Rightarrow> error + 'b list" where
  "for_each f [] = Inr []"
| "for_each f (x # xs) =
     (case f x of
        Inl e \<Rightarrow> Inl e
      | Inr y \<Rightarrow> (case for_each f xs of Inl e \<Rightarrow> Inl e | Inr ys \<Rightarrow> Inr (y # ys)))"

text \<open>
  \<^verbatim>\<open>x = d.get(key)\<close>, \<^verbatim>\<open>if x is not None: record.field = x\<close> on a string property:
  there is no test of the type, and the host raises \<^verbatim>\<open>TypeError\<close> when the value
  assigned is not a string.
\<close>

definition assign_not_none :: "json \<Rightarrow> (string \<Rightarrow> 'a \<Rightarrow> 'a) \<Rightarrow> 'a \<Rightarrow> error + 'a" where
  "assign_not_none v assign r =
     (case v of JNull \<Rightarrow> Inr r | JString s \<Rightarrow> Inr (assign s r) | _ \<Rightarrow> Inl TypeError)"

text \<open>
  The body of the loop over \<^verbatim>\<open>binds\<close>. The shape key is looked up in
  \<^verbatim>\<open>mesh.shape_keys.key_blocks\<close> only when \<^verbatim>\<open>index\<close> is a string, and that
  raises \<^verbatim>\<open>AttributeError\<close> on a mesh without shape keys.
\<close>

definition migrate_bind :: "host \<Rightarrow> rig \<Rightarrow> json \<Rightarrow> error + bind" where
  "migrate_bind H armature bind_dict =
     (case bind_dict of
        JObject d \<Rightarrow>
          (let b1 =
                 (case dict_get d ''mesh'' of
                    JString mesh_key \<Rightarrow>
                      (case map_of (data_meshes armature) mesh_key of
                         Some mesh \<Rightarrow>
                           (let b = (new_bind H)\<lparr>bind_mesh := mesh_name mesh\<rparr>
                            in case dict_get d ''index'' of
                                 JString index \<Rightarrow>
                                   (case mesh_shape_keys mesh of
                                      None \<Rightarrow> Inl AttributeError
                                    | Some key_blocks \<Rightarrow>
                                        (if index \<in> set key_blocks
                                         then Inr (b\<lparr>bind_index := index\<rparr>) else Inr b))
                               | _ \<Rightarrow> Inr b)
                       | None \<Rightarrow> Inr (new_bind H))
                  | _ \<Rightarrow> Inr (new_bind H))
           in and_then b1 (\<lambda>b.
                assign_number H ''weight'' (dict_get d ''weight'')
                  (\<lambda>x b. b\<lparr>bind_weight := x\<rparr>) b))
      | _ \<Rightarrow> Inr (new_bind H))"

text \<open>
  The body of the loop over \<^verbatim>\<open>targetValue\<close>: an element that fails
  \<^verbatim>\<open>isinstance(v, (int, float))\<close> is replaced by 0, and the value is assigned to a
  new entry. The assignment raises \<^verbatim>\<open>TypeError\<close> when the host cannot convert the
  value.
\<close>

definition migrate_target_value_element :: "host \<Rightarrow> json \<Rightarrow> error + real" where
  "migrate_target_value_element H v =
     (let v = (if is_int_or_float v then v else JInt 0)
      in if assignable H v then Inr (float_property H ''value'' (to_float v))
         else Inl TypeError)"

text \<open>The loop over \<^verbatim>\<open>targetValue\<close>: the entries it adds, or the exception.\<close>

definition migrate_target_value :: "host \<Rightarrow> json list \<Rightarrow> error + real list" where
  "migrate_target_value H target_value_vector =
     for_each (migrate_target_value_element H) target_value_vector"

text \<open>The body of the loop over \<^verbatim>\<open>materialValues\<close>.\<close>

definition migrate_material_value :: "host \<Rightarrow> rig \<Rightarrow> json \<Rightarrow> error + material_value" where
  "migrate_material_value H armature material_value_dict =
     (case material_value_dict of
        JObject d \<Rightarrow>
          (let v1 = (case dict_get d ''materialName'' of
                       JString material_name \<Rightarrow>
                         (if material_name \<in> set (data_materials armature)
                          then (add_material_value H)\<lparr>mv_material := Some material_name\<rparr>
                          else add_material_value H)
                     | _ \<Rightarrow> add_material_value H);
               v2 = assign_str (dict_get d ''propertyName'')
                      (\<lambda>s v. v\<lparr>mv_property_name := s\<rparr>) v1
           in case iterate (dict_get d ''targetValue'') of
                Some target_value_vector \<Rightarrow>
                  and_then (migrate_target_value H target_value_vector) (\<lambda>entries.
                    Inr (v2\<lparr>mv_target_value := mv_target_value v2 @ entries\<rparr>))
              | None \<Rightarrow> Inr v2)
      | _ \<Rightarrow> Inr (add_material_value H))"

text \<open>
  The body of the loop over the blend shape groups. \<^verbatim>\<open>name\<close> and
  \<^verbatim>\<open>presetName\<close> are assigned whenever they are not \<^verbatim>\<open>None\<close>; the declaration of
  \<^verbatim>\<open>preset_name\<close> is outside the sources, and it is taken to be a string property
  like \<^verbatim>\<open>name\<close>.
\<close>

definition migrate_blend_shape_group :: "host \<Rightarrow> rig \<Rightarrow> json \<Rightarrow> error + blend_shape_group" where
  "migrate_blend_shape_group H armature blend_shape_group_dict =
     (case blend_shape_group_dict of
        JObject d \<Rightarrow>
          and_then (assign_not_none (dict_get d ''name'')
                      (\<lambda>s g. g\<lparr>bsg_name := s\<rparr>) (add_blend_shape_group H)) (\<lambda>g1.
          and_then (assign_not_none (dict_get d ''presetName'')
                      (\<lambda>s g. g\<lparr>bsg_preset_name := s\<rparr>) g1) (\<lambda>g2.
          and_then (case iterate (dict_get d ''binds'') of
                      Some bind_dicts \<Rightarrow> for_each (migrate_bind H armature) bind_dicts
                    | None \<Rightarrow> Inr []) (\<lambda>binds.
          and_then (case iterate (dict_get d ''materialValues'') of
                      Some material_value_dicts \<Rightarrow>
                        for_each (migrate_material_value H armature) material_value_dicts
                    | None \<Rightarrow> Inr []) (\<lambda>material_values.
            Inr (assign_bool (dict_get d ''isBinary'')
                   (\<lambda>b g. g\<lparr>bsg_is_binary := b\<rparr>)
                   (g2\<lparr>bsg_binds := bsg_binds g2 @ binds,
                       bsg_material_values := bsg_material_values g2 @ material_values\<rparr>))))))
      | _ \<Rightarrow> Inr (add_blend_shape_group H))"

text \<open>\<^verbatim>\<open>migrate_vrm0_blend_shape_groups\<close>: one group is added per element.\<close>

definition migrate_vrm0_blend_shape_groups ::
  "host \<Rightarrow> rig \<Rightarrow> blend_shape_group list \<Rightarrow> json \<Rightarrow> error + blend_shape_group list" where
  "migrate_vrm0_blend_shape_groups H armature blend_shape_groups blend_shape_group_dicts =
     (case iterate blend_shape_group_dicts of
        None \<Rightarrow> Inr blend_shape_groups
      | Some ds \<Rightarrow>
          and_then (for_each (migrate_blend_shape_group H armature) ds) (\<lambda>groups.
            Inr (blend_shape_groups @ groups)))"

subsection \<open>Secondary animation: collider groups and bone groups\<close>

text \<open>
  The scan for collider markers: the children of the rig that are empties, displayed as
  spheres, parented to a bone, and whose parent bone is a bone of the rig.
\<close>

definition collider_objects :: "rig \<Rightarrow> child_object list" where
  "collider_objects armature =
     filter (\<lambda>child. ob_type child = ''EMPTY''
                    \<and> ob_empty_display_type child = ''SPHERE''
                    \<and> ob_parent_type child = ''BONE''
                    \<and> ob_parent_bone child \<in> set (rig_bones armature))
       (rig_children armature)"

text \<open>
  The dict \<^verbatim>\<open>bone_name_to_collider_objects\<close>, as its items in insertion order. One
  step of the loop: the marker is appended to the list of its parent bone, and a bone
  seen for the first time gets a new item at the end.
\<close>

fun dict_append :: "(string \<times> child_object list) list \<Rightarrow> child_object
    \<Rightarrow> (string \<times> child_object list) list" where
  "dict_append [] c = [(ob_parent_bone c, [c])]"
| "dict_append ((k, v) # d) c =
     (if k = ob_parent_bone c then (k, v @ [c]) # d else (k, v) # dict_append d c)"

definition bone_name_to_collider_objects :: "child_object list
    \<Rightarrow> (string \<times> child_object list) list" where
  "bone_name_to_collider_objects objs = foldl dict_append [] objs"

text \<open>
  The loop over the items of the dict: one collider group per item, with the next
  identifier of the source, the bone's name as its node, and one collider per marker.
\<close>

fun add_collider_groups :: "host \<Rightarrow> (string \<times> child_object list) list \<Rightarrow> nat
    \<Rightarrow> collider_group list" where
  "add_collider_groups H [] n = []"
| "add_collider_groups H ((bone_name, objs) # items) n =
     (add_collider_group H)\<lparr>cg_uuid := n, cg_node := bone_name,
        cg_colliders := map (\<lambda>collider_object. \<lparr>col_blender_object = Some collider_object\<rparr>) objs\<rparr>
     # add_collider_groups H items (Suc n)"

text \<open>
  The inner loop over the collider groups for one legacy name: the groups are walked in
  order, a group whose node differs is passed over, and the first group whose node is
  the name adds a reference holding that group's name and ends the loop.
\<close>

fun collider_group_named :: "collider_group list \<Rightarrow> string \<Rightarrow> string list" where
  "collider_group_named [] collider_group_node_name = []"
| "collider_group_named (collider_group # collider_groups) collider_group_node_name =
     (if cg_node collider_group \<noteq> collider_group_node_name
      then collider_group_named collider_groups collider_group_node_name
      else [cg_name collider_group])"

text \<open>The loop over \<^verbatim>\<open>colliderGroups\<close>: an element that is not a string is passed over.\<close>

fun resolve_collider_groups :: "collider_group list \<Rightarrow> json list \<Rightarrow> string list" where
  "resolve_collider_groups collider_groups [] = []"
| "resolve_collider_groups collider_groups (x # xs) =
     (case x of
        JString collider_group_node_name \<Rightarrow>
          collider_group_named collider_groups collider_group_node_name
      | _ \<Rightarrow> [])
     @ resolve_collider_groups collider_groups xs"

text \<open>
  Three steps of the body of the loop over the legacy bone groups. The direction of
  gravity is stored with its second and third components exchanged
  (\<^verbatim>\<open>(x, y, z) = gravity_dir\<close>, then \<^verbatim>\<open>(x, z, y)\<close>). Every element of
  \<^verbatim>\<open>bones\<close> adds a bone reference, which stays empty when the element is not a
  string. The names under \<^verbatim>\<open>colliderGroups\<close> are resolved against the collider
  groups of the document. None of the three raises.
\<close>

definition assign_gravity_dir :: "host \<Rightarrow> json \<Rightarrow> bone_group \<Rightarrow> bone_group" where
  "assign_gravity_dir H v bone_group =
     (case vrm_json_vector3_to_tuple H v of
        Some (x, y, z) \<Rightarrow>
          bone_group\<lparr>bg_gravity_dir := vector_property H ''gravity_dir'' (x, z, y)\<rparr>
      | None \<Rightarrow> bone_group)"

definition add_bones :: "json \<Rightarrow> bone_group \<Rightarrow> bone_group" where
  "add_bones bones bone_group =
     (case iterate bones of
        Some bs \<Rightarrow>
          bone_group\<lparr>bg_bones := bg_bones bone_group @
                         map (\<lambda>bone. case bone of JString s \<Rightarrow> s | _ \<Rightarrow> []) bs\<rparr>
      | None \<Rightarrow> bone_group)"

definition add_collider_group_names ::
  "collider_group list \<Rightarrow> json \<Rightarrow> bone_group \<Rightarrow> bone_group" where
  "add_collider_group_names collider_groups collider_group_node_names bone_group =
     (case iterate collider_group_node_names of
        Some names \<Rightarrow>
          bone_group\<lparr>bg_collider_groups := bg_collider_groups bone_group @
                         resolve_collider_groups collider_groups names\<rparr>
      | None \<Rightarrow> bone_group)"

text \<open>
  The body of the loop over the legacy bone groups, given the collider groups of the
  document, in the order of the source. The four numeric fields can raise; the
  references to collider groups come last.
\<close>

definition migrate_bone_group :: "host \<Rightarrow> collider_group list \<Rightarrow> json \<Rightarrow> error + bone_group" where
  "migrate_bone_group H collider_groups bone_group_dict =
     (case bone_group_dict of
        JObject d \<Rightarrow>
          and_then (assign_number H ''stiffiness'' (dict_get d ''stiffiness'')
                      (\<lambda>x g. g\<lparr>bg_stiffiness := x\<rparr>)
                      (assign_str (dict_get d ''comment'')
                         (\<lambda>s g. g\<lparr>bg_comment := s\<rparr>) (add_bone_group H))) (\<lambda>g2.
          and_then (assign_number H ''gravity_power'' (dict_get d ''gravityPower'')
                      (\<lambda>x g. g\<lparr>bg_gravity_power := x\<rparr>) g2) (\<lambda>g3.
          and_then (assign_number H ''drag_force'' (dict_get d ''dragForce'')
                      (\<lambda>x g. g\<lparr>bg_drag_force := x\<rparr>)
                      (assign_gravity_dir H (dict_get d ''gravityDir'') g3)) (\<lambda>g5.
          and_then (assign_number H ''hit_radius'' (dict_get d ''hitRadius'')
                      (\<lambda>x g. g\<lparr>bg_hit_radius := x\<rparr>)
                      (assign_str (dict_get d ''center'')
                         (\<lambda>s g. g\<lparr>bg_center := s\<rparr>) g5)) (\<lambda>g7.
            Inr (add_collider_group_names collider_groups (dict_get d ''colliderGroups'')
                   (add_bones (dict_get d ''bones'') g7))))))
      | _ \<Rightarrow> Inr (add_bone_group H))"

text \<open>
  The first part of \<^verbatim>\<open>migrate_vrm0_secondary_animation\<close>, up to the refresh of the
  collider groups, given the state \<open>n\<close> of the identifier source; it returns the new
  state with the record. The collider groups made from the markers are appended to
  those the document holds, and every collider group is refreshed. Nothing here raises.
\<close>

definition reconstruct_collider_groups ::
  "host \<Rightarrow> rig \<Rightarrow> secondary_animation \<Rightarrow> nat \<Rightarrow> secondary_animation \<times> nat" where
  "reconstruct_collider_groups H armature secondary_animation n =
     (let items = bone_name_to_collider_objects (collider_objects armature)
      in (secondary_animation
            \<lparr>sa_collider_groups :=
               map (collider_group_refresh H armature)
                 (sa_collider_groups secondary_animation @ add_collider_groups H items n)\<rparr>,
          n + length items))"

text \<open>
  \<^verbatim>\<open>migrate_vrm0_secondary_animation\<close>: after the collider groups, the bone groups
  are appended (resolved against all collider groups of the document), and every bone
  group is refreshed. An exception of a bone group leaves the function.
\<close>

definition migrate_vrm0_secondary_animation ::
  "host \<Rightarrow> rig \<Rightarrow> secondary_animation \<Rightarrow> json \<Rightarrow> nat
   \<Rightarrow> error + secondary_animation \<times> nat" where
  "migrate_vrm0_secondary_animation H armature secondary_animation bone_group_dicts n =
     (let (with_colliders, n1) = reconstruct_collider_groups H armature secondary_animation n;
          dicts = (case iterate bone_group_dicts of Some ds \<Rightarrow> ds | None \<Rightarrow> [])
      in and_then (for_each (migrate_bone_group H (sa_collider_groups with_colliders)) dicts)
           (\<lambda>bone_groups.
              Inr (with_colliders
                     \<lparr>sa_bone_groups :=
                        map (bone_group_refresh H armature)
                          (sa_bone_groups with_colliders @ bone_groups)\<rparr>,
                   n1)))"

section \<open>The orchestrator\<close>

text \<open>\<^verbatim>\<open>tuple(a) >= b\<close> on triples of integers: the lexicographic order.\<close>

fun tuple_ge :: "int \<times> int \<times> int \<Rightarrow> int \<times> int \<times> int \<Rightarrow> bool" where
  "tuple_ge (a1, a2, a3) (b1, b2, b3) =
     (if a1 = b1 then (if a2 = b2 then b3 \<le> a3 else b2 < a2) else b1 < a1)"

text \<open>
  The inner loop of the scan: the first entry of the humanoid whose role is the name
  gets the bone.
\<close>

fun assign_human_bone :: "human_bone list \<Rightarrow> string \<Rightarrow> string \<Rightarrow> human_bone list" where
  "assign_human_bone [] human_bone_name bpy_bone_name = []"
| "assign_human_bone (human_bone # human_bones) human_bone_name bpy_bone_name =
     (if hb_bone human_bone = human_bone_name
      then human_bone\<lparr>hb_node := bpy_bone_name\<rparr> # human_bones
      else human_bone # assign_human_bone human_bones human_bone_name bpy_bone_name)"

text \<open>
  The scan of the legacy attributes, one per role: the roles still to visit, the bones
  assigned so far (\<^verbatim>\<open>assigned_bpy_bone_names\<close>) and the entries of the humanoid.
\<close>

fun scan_human_bones :: "rig \<Rightarrow> string list \<Rightarrow> string list \<Rightarrow> human_bone list
    \<Rightarrow> human_bone list" where
  "scan_human_bones armature [] assigned human_bones = human_bones"
| "scan_human_bones armature (human_bone_name # names) assigned human_bones =
     (case armature_data_get armature human_bone_name of
        Some (PropStr bpy_bone_name) \<Rightarrow>
          (if bpy_bone_name = [] \<or> bpy_bone_name \<in> set assigned
           then scan_human_bones armature names assigned human_bones
           else scan_human_bones armature names (assigned @ [bpy_bone_name])
                  (assign_human_bone human_bones human_bone_name bpy_bone_name))
      | _ \<Rightarrow> scan_human_bones armature names assigned human_bones)"

text \<open>
  \<^verbatim>\<open>migrate_legacy_custom_properties\<close>. Past the gate on the version, the steps run in
  the order of the source; an exception of a step leaves the function (the model keeps
  the exception, not the partly migrated document).
\<close>

definition migrate_legacy_custom_properties :: "host \<Rightarrow> rig \<Rightarrow> extension \<Rightarrow> error + extension" where
  "migrate_legacy_custom_properties H armature ext =
     (if tuple_ge (addon_version ext) (2, 0, 1) then Inr ext
      else
        and_then (migrate_vrm0_meta armature (vrm0_meta (ext_vrm0 ext))) (\<lambda>meta.
        and_then (read_textblock_json H armature ''blendshape_group'') (\<lambda>blend_shape_json.
        and_then (migrate_vrm0_blend_shape_groups H armature
                    (vrm0_blend_shape_groups (ext_vrm0 ext)) blend_shape_json) (\<lambda>blend_shape_groups.
        and_then (read_textblock_json H armature ''firstPerson_params'') (\<lambda>first_person_json.
        and_then (migrate_vrm0_first_person H armature
                    (vrm0_first_person (ext_vrm0 ext)) first_person_json) (\<lambda>first_person.
        and_then (read_textblock_json H armature ''humanoid_params'') (\<lambda>humanoid_json.
        and_then (migrate_vrm0_humanoid H
                    (vrm0_humanoid (ext_vrm0 ext)) humanoid_json) (\<lambda>humanoid.
        and_then (read_textblock_json H armature ''spring_bone'') (\<lambda>spring_bone_json.
        and_then (migrate_vrm0_secondary_animation H armature
                    (vrm0_secondary_animation (ext_vrm0 ext)) spring_bone_json
                    (uuid_counter ext)) (\<lambda>(secondary_animation, n).
          (let human_bones =
                 scan_human_bones armature (all_names H) [] (hum_human_bones humanoid)
           in Inr (ext\<lparr>ext_vrm0 :=
                          \<lparr>vrm0_meta = meta,
                           vrm0_humanoid = humanoid\<lparr>hum_human_bones := human_bones\<rparr>,
                           vrm0_first_person = first_person,
                           vrm0_blend_shape_groups = blend_shape_groups,
                           vrm0_secondary_animation = secondary_animation\<rparr>,
                        uuid_counter := n\<rparr>))))))))))))"

text \<open>
  \<^verbatim>\<open>is_unnecessary\<close>: the first-person bone is set, or no entry for the role
  \<^verbatim>\<open>head\<close> holds a bone.
\<close>

definition is_unnecessary :: "vrm0 \<Rightarrow> bool" where
  "is_unnecessary v =
     (fp_first_person_bone (vrm0_first_person v) \<noteq> []
      \<or> list_all (\<lambda>human_bone. hb_bone human_bone \<noteq> ''head'' \<or> hb_node human_bone = [])
           (hum_human_bones (vrm0_humanoid v)))"

text \<open>
  The backfill of the first-person bone: the first entry for the role \<^verbatim>\<open>head\<close> gives
  its bone, whatever it holds.
\<close>

fun backfill_first_person_bone :: "first_person \<Rightarrow> human_bone list \<Rightarrow> first_person" where
  "backfill_first_person_bone first_person [] = first_person"
| "backfill_first_person_bone first_person (human_bone # human_bones) =
     (if hb_bone human_bone = ''head''
      then first_person\<lparr>fp_first_person_bone := hb_node human_bone\<rparr>
      else backfill_first_person_bone first_person human_bones)"

text \<open>
  \<^verbatim>\<open>migrate\<close>, on the document of the rig it is given (\<^verbatim>\<open>vrm0\<close> is
  \<^verbatim>\<open>armature.data.vrm_addon_extension.vrm0\<close>). In the order of the source: the fixup
  of the humanoid's entries, the refresh of the collider groups and bone groups the
  document holds, the backfill of the first-person bone, the gated legacy migration, and
  the cache of bone names, cleared and rebuilt.
\<close>

definition migrate :: "host \<Rightarrow> rig \<Rightarrow> extension \<Rightarrow> error + extension" where
  "migrate H armature ext =
     (let v = ext_vrm0 ext;
          humanoid = (vrm0_humanoid v)
            \<lparr>hum_human_bones := fixup_human_bones H armature (hum_human_bones (vrm0_humanoid v))\<rparr>;
          secondary_animation = (vrm0_secondary_animation v)
            \<lparr>sa_collider_groups :=
               map (collider_group_refresh H armature)
                 (sa_collider_groups (vrm0_secondary_animation v)),
             sa_bone_groups :=
               map (bone_group_refresh H armature)
                 (sa_bone_groups (vrm0_secondary_animation v))\<rparr>;
          first_person =
            (if fp_first_person_bone (vrm0_first_person v) = []
             then backfill_first_person_bone (vrm0_first_person v) (hum_human_bones humanoid)
             else vrm0_first_person v);
          ext1 = ext\<lparr>ext_vrm0 := v\<lparr>vrm0_humanoid := humanoid,
                                     vrm0_first_person := first_person,
                                     vrm0_secondary_animation := secondary_animation\<rparr>\<rparr>
      in and_then (migrate_legacy_custom_properties H armature ext1) (\<lambda>ext2.
           Inr (ext2\<lparr>ext_vrm0 := (ext_vrm0 ext2)
                  \<lparr>vrm0_humanoid := (vrm0_humanoid (ext_vrm0 ext2))
                     \<lparr>hum_last_bone_names := check_last_bone_names_and_update H armature\<rparr>\<rparr>\<rparr>)))"

text \<open>The orchestrator run twice in succession on the same rig.\<close>

definition run_twice :: "host \<Rightarrow> rig \<Rightarrow> extension \<Rightarrow> error + extension" where
  "run_twice H armature ext = and_then (migrate H armature ext) (migrate H armature)"

section \<open>A host and a rig for the examples\<close>

text \<open>
  Concrete collaborators at which the theorems below are instantiated. Their code is
  outside the sources, so each is a stand-in: \<open>sample_loads\<close> parses the few texts the
  examples use, raises another exception than \<^verbatim>\<open>JSONDecodeError\<close> on a thousand
  opening brackets (as \<^verbatim>\<open>json.loads\<close> does, with \<^verbatim>\<open>RecursionError\<close>) and rejects
  every other text; the host accepts the integers below \<open>2 ^ 1024\<close> in absolute
  value for a float property and keeps every number as it is (the numbers of the
  examples are exact in 32 bits); \<open>sample_vector3\<close> reads a dict with
  numeric \<^verbatim>\<open>x\<close>, \<^verbatim>\<open>y\<close> and \<^verbatim>\<open>z\<close>; \<open>sample_fixup\<close> gives every role of the closed
  set an entry (the humanoid maps each role to a bone reference); \<open>sample_refresh\<close>
  recomputes the name of a collider group from its node and its identifier.
\<close>

definition sample_loads :: "string \<Rightarrow> loads_result" where
  "sample_loads s =
     (if length s = 1000 \<and> set s = {CHR ''[''} then OtherError
      else if s = ''[{\"name\": 5}]'' then Parsed (JArray [JObject [(''name'', JInt 5)]])
      else if s = ''{\"b\": 1, \"a\": 2}'' then Parsed (JObject [(''b'', JInt 1), (''a'', JInt 2)])
      else if s = ''[{\"bones\": [\"hair\"], \"colliderGroups\": [\"head\"]}]''
        then Parsed (JArray [JObject [(''bones'', JArray [JString ''hair'']),
                                      (''colliderGroups'', JArray [JString ''head''])]])
      else JSONDecodeError)"

definition sample_vector3 :: "json \<Rightarrow> (real \<times> real \<times> real) option" where
  "sample_vector3 v =
     (case v of
        JObject d \<Rightarrow>
          (if is_int_or_float (dict_get d ''x'') \<and> is_int_or_float (dict_get d ''y'')
              \<and> is_int_or_float (dict_get d ''z'')
           then Some (to_float (dict_get d ''x''), to_float (dict_get d ''y''),
                      to_float (dict_get d ''z''))
           else None)
      | _ \<Rightarrow> None)"

fun sample_fixup :: "string list \<Rightarrow> human_bone list \<Rightarrow> human_bone list" where
  "sample_fixup [] human_bones = human_bones"
| "sample_fixup (role # roles) human_bones =
     sample_fixup roles
       (if role \<in> set (map hb_bone human_bones) then human_bones
        else human_bones @ [\<lparr>hb_bone = role, hb_node = []\<rparr>])"

definition sample_refresh :: "rig \<Rightarrow> collider_group \<Rightarrow> collider_group" where
  "sample_refresh armature g =
     g\<lparr>cg_name := cg_node g @ ''#'' @ replicate (cg_uuid g) (CHR ''i'')\<rparr>"

definition sample_host :: host where
  "sample_host =
     \<lparr>json_loads = sample_loads,
      vrm_json_vector3_to_tuple = sample_vector3,
      vrm_json_curve_to_list = (\<lambda>v. None),
      all_names = [''hips'', ''head'', ''leftUpperArm''],
      fixup_human_bones = (\<lambda>armature. sample_fixup [''hips'', ''head'', ''leftUpperArm'']),
      check_last_bone_names_and_update = rig_bones,
      collider_group_refresh = sample_refresh,
      bone_group_refresh = (\<lambda>armature g. g),
      new_mesh_annotation = \<lparr>ma_mesh = [], ma_first_person_flag = ''Auto''\<rparr>,
      new_blend_shape_group =
        \<lparr>bsg_name = [], bsg_preset_name = ''unknown'', bsg_binds = [],
         bsg_material_values = [], bsg_is_binary = False\<rparr>,
      new_bind = \<lparr>bind_mesh = [], bind_index = [], bind_weight = 1\<rparr>,
      new_material_value = \<lparr>mv_material = None, mv_property_name = [], mv_target_value = []\<rparr>,
      new_collider_group = \<lparr>cg_uuid = 0, cg_name = [], cg_node = [], cg_colliders = []\<rparr>,
      new_bone_group =
        \<lparr>bg_comment = [], bg_stiffiness = 0, bg_gravity_power = 0, bg_gravity_dir = (0, 0, 0),
         bg_drag_force = 0, bg_center = [], bg_hit_radius = 0, bg_bones = [],
         bg_collider_groups = []\<rparr>,
      float_accepts = (\<lambda>i. \<bar>i\<bar> < 2 ^ 1024),
      float_property = (\<lambda>property x. x)\<rparr>"

text \<open>A document holding defaults only, at a given version.\<close>

definition sample_extension :: "int \<times> int \<times> int \<Rightarrow> extension" where
  "sample_extension v =
     \<lparr>addon_version = v,
      ext_vrm0 =
        \<lparr>vrm0_meta =
           \<lparr>meta_allowed_user_name = [], meta_author = [], meta_commercial_ussage_name = [],
            meta_contact_information = [], meta_license_name = [], meta_other_license_url = [],
            meta_other_permission_url = [], meta_reference = [], meta_sexual_ussage_name = [],
            meta_title = [], meta_version = [], meta_violent_ussage_name = [],
            meta_texture = None\<rparr>,
         vrm0_humanoid =
           \<lparr>hum_human_bones = [], hum_arm_stretch = 0, hum_leg_stretch = 0,
            hum_upper_arm_twist = 0, hum_lower_arm_twist = 0, hum_upper_leg_twist = 0,
            hum_lower_leg_twist = 0, hum_feet_spacing = 0, hum_has_translation_dof = False,
            hum_last_bone_names = []\<rparr>,
         vrm0_first_person =
           \<lparr>fp_first_person_bone = [], fp_first_person_bone_offset = (0, 0, 0),
            fp_mesh_annotations = [], fp_look_at_type_name = ''Bone'',
            fp_look_at_horizontal_inner = \<lparr>la_curve = [], la_x_range = 0, la_y_range = 0\<rparr>,
            fp_look_at_horizontal_outer = \<lparr>la_curve = [], la_x_range = 0, la_y_range = 0\<rparr>,
            fp_look_at_vertical_down = \<lparr>la_curve = [], la_x_range = 0, la_y_range = 0\<rparr>,
            fp_look_at_vertical_up = \<lparr>la_curve = [], la_x_range = 0, la_y_range = 0\<rparr>\<rparr>,
         vrm0_blend_shape_groups = [],
         vrm0_secondary_animation = \<lparr>sa_collider_groups = [], sa_bone_groups = []\<rparr>\<rparr>,
      uuid_counter = 0\<rparr>"

text \<open>A sphere marker parented to a bone.\<close>

definition marker :: "string \<Rightarrow> string \<Rightarrow> child_object" where
  "marker name bone =
     \<lparr>ob_name = name, ob_type = ''EMPTY'', ob_empty_display_type = ''SPHERE'',
      ob_parent_type = ''BONE'', ob_parent_bone = bone\<rparr>"

text \<open>
  A rig with the bones \<^verbatim>\<open>Head\<close> and \<^verbatim>\<open>Hips\<close>, the given custom attributes on its
  armature data and the given children, and nothing else: no attributes on the object,
  no text attachments, no images, meshes or materials.
\<close>

definition sample_rig :: "(string \<times> idprop) list \<Rightarrow> child_object list \<Rightarrow> rig" where
  "sample_rig data_custom children =
     \<lparr>rig_custom = [], rig_data_custom = data_custom, rig_data_name = ''Armature'',
      rig_bones = [''Head'', ''Hips''], rig_children = children,
      data_texts = [], data_images = [], data_meshes = [], data_materials = []\<rparr>"

text \<open>
  The same rig with custom attributes on the object and three text attachments: one
  whose two lines join to a JSON object, one whose content is not JSON, and one of a
  thousand lines that each hold an opening bracket.
\<close>

definition sample_rig_with_texts :: "(string \<times> idprop) list \<Rightarrow> rig" where
  "sample_rig_with_texts custom =
     (sample_rig [] [])
       \<lparr>rig_custom := custom,
        data_texts := [(''spring.json'', \<lparr>tb_lines = [''{\"b\": 1, '', ''\"a\": 2}'']\<rparr>),
                       (''bad.json'', \<lparr>tb_lines = [''{'']\<rparr>),
                       (''deep.json'', \<lparr>tb_lines = replicate 1000 ''[''\<rparr>)]\<rparr>"


text \<open>
  A rig with five children: three markers on the bones \<^verbatim>\<open>Head\<close>, \<^verbatim>\<open>Hips\<close> and
  \<^verbatim>\<open>Head\<close>, a marker on \<^verbatim>\<open>Tail\<close>, which is no bone of the rig, and a mesh.
\<close>

definition sample_rig_with_markers :: rig where
  "sample_rig_with_markers =
     sample_rig []
       [marker ''A'' ''Head'', marker ''B'' ''Hips'', marker ''C'' ''Head'',
        marker ''D'' ''Tail'', (marker ''E'' ''Head'')\<lparr>ob_type := ''MESH''\<rparr>]"

text \<open>
  A secondary animation that already holds a collider group on \<^verbatim>\<open>Head\<close>, and a
  legacy list of two bone groups: a number, and a dict whose \<^verbatim>\<open>colliderGroups\<close> name
  \<^verbatim>\<open>Hips\<close>, \<^verbatim>\<open>Tail\<close>, the number 5 and \<^verbatim>\<open>Head\<close>.
\<close>

definition sample_secondary_animation :: secondary_animation where
  "sample_secondary_animation =
     \<lparr>sa_collider_groups =
        [\<lparr>cg_uuid = 0, cg_name = ''stale'', cg_node = ''Head'', cg_colliders = []\<rparr>],
      sa_bone_groups = []\<rparr>"

definition sample_collider_group_names :: "json list" where
  "sample_collider_group_names = [JString ''Hips'', JString ''Tail'', JInt 5, JString ''Head'']"

definition sample_bone_group_dicts :: json where
  "sample_bone_group_dicts =
     JArray [JInt 0, JObject [(''colliderGroups'', JArray sample_collider_group_names)]]"

text \<open>
  A rig whose attachment \<^verbatim>\<open>blendshape_group\<close> holds one blend shape group with the
  number 5 as its name.
\<close>

definition sample_rig_with_blend_shapes :: rig where
  "sample_rig_with_blend_shapes =
     (sample_rig [] [])
       \<lparr>rig_custom := [(''blendshape_group'', PropStr ''blend.json'')],
        data_texts := [(''blend.json'', \<lparr>tb_lines = [''[{\"name\": 5}]'']\<rparr>)]\<rparr>"

text \<open>
  What the end-to-end example looks at: the version, the bones of the entries for the
  role \<^verbatim>\<open>head\<close>, and the first-person bone.
\<close>

definition head_summary ::
  "error + extension \<Rightarrow> error + (int \<times> int \<times> int) \<times> string list \<times> string" where
  "head_summary r =
     map_sum id
       (\<lambda>ext. (addon_version ext,
               map hb_node (filter (\<lambda>human_bone. hb_bone human_bone = ''head'')
                              (hum_human_bones (vrm0_humanoid (ext_vrm0 ext)))),
               fp_first_person_bone (vrm0_first_person (ext_vrm0 ext)))) r"

text \<open>Three entries of a humanoid, none of them assigned.\<close>

definition sample_human_bones :: "human_bone list" where
  "sample_human_bones =
     [\<lparr>hb_bone = ''hips'', hb_node = []\<rparr>, \<lparr>hb_bone = ''head'', hb_node = []\<rparr>,
      \<lparr>hb_bone = ''leftUpperArm'', hb_node = []\<rparr>]"

section \<open>Properties\<close>

subsection \<open>Steps that can raise, and assignments behind a type test\<close>

lemma and_then_Inr: "and_then r f = Inr y \<longleftrightarrow> (\<exists>x. r = Inr x \<and> f x = Inr y)"
  by (cases r) (simp_all add: and_then_def)

lemma and_then_Inr_left: "and_then (Inr x) f = f x"
  by (simp add: and_then_def)

lemma assign_number_frame:
  "assign_number H property v assign r = Inr r' \<Longrightarrow> (\<And>x r. sel (assign x r) = sel r)
   \<Longrightarrow> sel r' = sel r"
  by (auto simp: assign_number_def split: if_splits)

lemma assign_number_assignable:
  "assignable H v \<Longrightarrow>
   assign_number H property v assign r
   = Inr (if is_int_or_float v then assign (float_property H property (to_float v)) r else r)"
  by (simp add: assign_number_def)

lemma assign_number_skipped:
  "assign_number H property v assign r = Inr r' \<Longrightarrow> \<not> is_int_or_float v \<Longrightarrow> r' = r"
  by (simp add: assign_number_def)

lemma assign_str_frame:
  "(\<And>x r. sel (assign x r) = sel r) \<Longrightarrow> sel (assign_str v assign r) = sel r"
  by (simp add: assign_str_def split: json.splits)

lemma assign_bool_frame:
  "(\<And>x r. sel (assign x r) = sel r) \<Longrightarrow> sel (assign_bool v assign r) = sel r"
  by (simp add: assign_bool_def split: json.splits)

lemma assign_not_none_frame:
  "assign_not_none v assign r = Inr r' \<Longrightarrow> (\<And>x r. sel (assign x r) = sel r)
   \<Longrightarrow> sel r' = sel r"
  by (auto simp: assign_not_none_def split: json.splits)

lemma for_each_Inr:
  "for_each f xs = Inr ys \<longleftrightarrow> list_all2 (\<lambda>x y. f x = Inr y) xs ys"
proof (induction xs arbitrary: ys)
  case Nil
  then show ?case by auto
next
  case (Cons x xs)
  have IH: "list_all2 (\<lambda>x y. f x = Inr y) xs zs \<longleftrightarrow> for_each f xs = Inr zs" for zs
    using Cons[of zs] by simp
  show ?case
    by (cases "f x"; cases "for_each f xs") (auto simp: list_all2_Cons1 IH)
qed

lemma for_each_all_Inr:
  "(\<And>x. x \<in> set xs \<Longrightarrow> \<exists>y. f x = Inr y) \<Longrightarrow> \<exists>ys. for_each f xs = Inr ys"
proof (induction xs)
  case Nil
  then show ?case by simp
next
  case (Cons x xs)
  then obtain y where "f x = Inr y" by auto
  moreover obtain ys where "for_each f xs = Inr ys" using Cons by auto
  ultimately show ?case by simp
qed

lemma for_each_nth:
  "for_each f xs = Inr ys \<Longrightarrow> i < length xs \<Longrightarrow> f (xs ! i) = Inr (ys ! i)"
  using list_all2_nthD[of "\<lambda>x y. f x = Inr y" xs ys i] by (simp add: for_each_Inr)

subsection \<open>The version gate\<close>

text \<open>
  Claim C1. For every rig whose stored \<^verbatim>\<open>addon_version\<close> is at least (2, 0, 1), the
  gated entry point \<^verbatim>\<open>migrate_legacy_custom_properties\<close> returns at once: no
  exception, and the whole extension (the version, the VRM0 document with its meta,
  blend shape groups, first person, humanoid and secondary animation, and the state of
  the identifier source) is what it was, whatever legacy attributes and attachments the
  rig carries.
\<close>

theorem legacy_migration_gated_by_version:
  "tuple_ge (addon_version ext) (2, 0, 1)
   \<Longrightarrow> migrate_legacy_custom_properties H armature ext = Inr ext"
  by (simp add: migrate_legacy_custom_properties_def)

theorem legacy_migration_gated_by_version_witness:
  "tuple_ge (addon_version (sample_extension (2, 0, 1))) (2, 0, 1)
   \<and> migrate_legacy_custom_properties sample_host
         (sample_rig [(''head'', PropStr ''Head'')] [marker ''Collider'' ''Head''])
         (sample_extension (2, 0, 1))
       = Inr (sample_extension (2, 0, 1))"
  using legacy_migration_gated_by_version
          [of "sample_extension (2, 0, 1)" sample_host
              "sample_rig [(''head'', PropStr ''Head'')] [marker ''Collider'' ''Head'']"]
  by (simp add: sample_extension_def)

subsection \<open>The legacy data reader\<close>

text \<open>
  The claim as stated fails on content that is malformed but does not make
  \<^verbatim>\<open>json.loads\<close> raise \<^verbatim>\<open>JSONDecodeError\<close>: for a text of a thousand opening
  brackets the parser raises another exception, which the reader does not suppress, so
  the exception leaves the reader instead of \<^verbatim>\<open>None\<close> being returned.
\<close>

theorem deeply_nested_text_raises:
  "read_textblock_json sample_host
     (sample_rig_with_texts [(''spring_bone'', PropStr ''deep.json'')]) ''spring_bone''
   = Inl LoadsError"
  by (simp add: read_textblock_json_def sample_rig_with_texts_def sample_rig_def
        armature_get_def sample_host_def sample_loads_def)

text \<open>
  Claim C7, amended. For every rig and attribute key, \<^verbatim>\<open>read_textblock_json\<close>
  returns the value \<^verbatim>\<open>json.loads\<close> parsed from the joined lines when the attribute
  is a text attachment, or a string naming one, and the content parses; the value is
  returned as parsed, so the keys of objects keep their order. When the attribute is
  missing, is not a string or a text attachment, names no attachment, or the content
  makes the parser raise \<^verbatim>\<open>JSONDecodeError\<close>, the result is \<^verbatim>\<open>None\<close> and nothing
  is raised. When the parser raises any other exception, that exception leaves the
  reader.
\<close>

theorem read_textblock_json_contract:
  "(armature_get armature key = Some (PropText t)
      \<and> json_loads H (concat (tb_lines t)) = Parsed v
     \<longrightarrow> read_textblock_json H armature key = Inr v)
   \<and> (armature_get armature key = Some (PropStr k)
        \<and> map_of (data_texts armature) k = Some t
        \<and> json_loads H (concat (tb_lines t)) = Parsed v
     \<longrightarrow> read_textblock_json H armature key = Inr v)
   \<and> (armature_get armature key = None
     \<longrightarrow> read_textblock_json H armature key = Inr JNull)
   \<and> (armature_get armature key = Some (PropInt i)
     \<longrightarrow> read_textblock_json H armature key = Inr JNull)
   \<and> (armature_get armature key = Some (PropFloat r)
     \<longrightarrow> read_textblock_json H armature key = Inr JNull)
   \<and> (armature_get armature key = Some (PropStr k)
        \<and> map_of (data_texts armature) k = None
     \<longrightarrow> read_textblock_json H armature key = Inr JNull)
   \<and> ((armature_get armature key = Some (PropText t)
         \<or> armature_get armature key = Some (PropStr k)
            \<and> map_of (data_texts armature) k = Some t)
        \<and> json_loads H (concat (tb_lines t)) = JSONDecodeError
     \<longrightarrow> read_textblock_json H armature key = Inr JNull)
   \<and> ((armature_get armature key = Some (PropText t)
         \<or> armature_get armature key = Some (PropStr k)
            \<and> map_of (data_texts armature) k = Some t)
        \<and> json_loads H (concat (tb_lines t)) = OtherError
     \<longrightarrow> read_textblock_json H armature key = Inl LoadsError)"
  by (auto simp: read_textblock_json_def)

theorem read_textblock_json_contract_witness:
  "read_textblock_json sample_host
       (sample_rig_with_texts [(''spring_bone'', PropStr ''spring.json'')]) ''spring_bone''
     = Inr (JObject [(''b'', JInt 1), (''a'', JInt 2)])
   \<and> read_textblock_json sample_host
       (sample_rig_with_texts
          [(''spring_bone'', PropText \<lparr>tb_lines = [''{\"b\": 1, \"a\": 2}'']\<rparr>)])
       ''spring_bone''
     = Inr (JObject [(''b'', JInt 1), (''a'', JInt 2)])
   \<and> read_textblock_json sample_host (sample_rig_with_texts []) ''spring_bone'' = Inr JNull
   \<and> read_textblock_json sample_host
       (sample_rig_with_texts [(''spring_bone'', PropInt 3)]) ''spring_bone'' = Inr JNull
   \<and> read_textblock_json sample_host
       (sample_rig_with_texts [(''spring_bone'', PropStr ''missing.json'')]) ''spring_bone''
     = Inr JNull
   \<and> read_textblock_json sample_host
       (sample_rig_with_texts [(''spring_bone'', PropStr ''bad.json'')]) ''spring_bone''
     = Inr JNull
   \<and> read_textblock_json sample_host
       (sample_rig_with_texts [(''spring_bone'', PropStr ''deep.json'')]) ''spring_bone''
     = Inl LoadsError"
  using
    read_textblock_json_contract
      [of "sample_rig_with_texts [(''spring_bone'', PropStr ''spring.json'')]" "''spring_bone''"
          "\<lparr>tb_lines = [''{\"b\": 1, '', ''\"a\": 2}'']\<rparr>" sample_host
          "JObject [(''b'', JInt 1), (''a'', JInt 2)]" "''spring.json''" 0 0]
    read_textblock_json_contract
      [of "sample_rig_with_texts
             [(''spring_bone'', PropText \<lparr>tb_lines = [''{\"b\": 1, \"a\": 2}'']\<rparr>)]"
          "''spring_bone''" "\<lparr>tb_lines = [''{\"b\": 1, \"a\": 2}'']\<rparr>" sample_host
          "JObject [(''b'', JInt 1), (''a'', JInt 2)]" "''spring.json''" 0 0]
    read_textblock_json_contract
      [of "sample_rig_with_texts []" "''spring_bone''" "\<lparr>tb_lines = []\<rparr>" sample_host
          JNull "''spring.json''" 0 0]
    read_textblock_json_contract
      [of "sample_rig_with_texts [(''spring_bone'', PropInt 3)]" "''spring_bone''"
          "\<lparr>tb_lines = []\<rparr>" sample_host JNull "''spring.json''" 3 0]
    read_textblock_json_contract
      [of "sample_rig_with_texts [(''spring_bone'', PropStr ''missing.json'')]"
          "''spring_bone''" "\<lparr>tb_lines = []\<rparr>" sample_host JNull "''missing.json''" 0 0]
    read_textblock_json_contract
      [of "sample_rig_with_texts [(''spring_bone'', PropStr ''bad.json'')]" "''spring_bone''"
          "\<lparr>tb_lines = [''{'']\<rparr>" sample_host JNull "''bad.json''" 0 0]
    read_textblock_json_contract
      [of "sample_rig_with_texts [(''spring_bone'', PropStr ''deep.json'')]" "''spring_bone''"
          "\<lparr>tb_lines = replicate 1000 ''[''\<rparr>" sample_host JNull "''deep.json''" 0 0]
  by (simp add: sample_rig_with_texts_def sample_rig_def armature_get_def sample_host_def
        sample_loads_def)

subsection \<open>The scan of the legacy attributes per role\<close>

lemma find_assign_human_bone_other:
  "role \<noteq> n \<Longrightarrow>
   find (\<lambda>hb. hb_bone hb = role) (assign_human_bone hbs n b)
   = find (\<lambda>hb. hb_bone hb = role) hbs"
  by (induction hbs) auto

lemma find_assign_human_bone_same:
  "find (\<lambda>hb. hb_bone hb = role) (assign_human_bone hbs role b)
   = map_option (\<lambda>hb. hb\<lparr>hb_node := b\<rparr>) (find (\<lambda>hb. hb_bone hb = role) hbs)"
  by (induction hbs) auto

text \<open>
  A role whose attribute is no string, is empty, or names a bone already assigned is
  left alone by the rest of the scan.
\<close>

lemma scan_keeps_settled_role:
  "(\<And>b. armature_data_get armature role = Some (PropStr b) \<Longrightarrow> b = [] \<or> b \<in> set assigned)
   \<Longrightarrow> find (\<lambda>hb. hb_bone hb = role) (scan_human_bones armature names assigned hbs)
       = find (\<lambda>hb. hb_bone hb = role) hbs"
proof (induction names arbitrary: assigned hbs)
  case Nil
  then show ?case by simp
next
  case (Cons n names)
  show ?case
  proof (cases "armature_data_get armature n")
    case None
    then show ?thesis using Cons by simp
  next
    case (Some p)
    show ?thesis
    proof (cases p)
      case (PropStr b)
      show ?thesis
      proof (cases "b = [] \<or> b \<in> set assigned")
        case True
        then show ?thesis using Some PropStr Cons by simp
      next
        case False
        then have ne: "role \<noteq> n" using Cons.prems Some PropStr by auto
        have "find (\<lambda>hb. hb_bone hb = role)
                (scan_human_bones armature names (assigned @ [b]) (assign_human_bone hbs n b))
              = find (\<lambda>hb. hb_bone hb = role) (assign_human_bone hbs n b)"
          using Cons.prems by (intro Cons.IH) auto
        then show ?thesis
          using False Some PropStr ne by (simp add: find_assign_human_bone_other)
      qed
    qed (use Some Cons in simp_all)
  qed
qed

lemma scan_human_bones_role:
  "role \<notin> set pre \<Longrightarrow>
   find (\<lambda>hb. hb_bone hb = role) (scan_human_bones armature (pre @ role # post) assigned hbs)
   = map_option
       (\<lambda>hb. case armature_data_get armature role of
                Some (PropStr b) \<Rightarrow>
                  if b \<noteq> [] \<and> b \<notin> set assigned
                     \<and> (\<forall>r \<in> set pre. armature_data_get armature r \<noteq> Some (PropStr b))
                  then hb\<lparr>hb_node := b\<rparr> else hb
              | _ \<Rightarrow> hb)
       (find (\<lambda>hb. hb_bone hb = role) hbs)"
proof (induction pre arbitrary: assigned hbs)
  case Nil
  show ?case
  proof (cases "armature_data_get armature role")
    case None
    then have "find (\<lambda>hb. hb_bone hb = role) (scan_human_bones armature post assigned hbs)
              = find (\<lambda>hb. hb_bone hb = role) hbs"
      by (intro scan_keeps_settled_role) simp
    then show ?thesis using None by (simp add: option.map_ident)
  next
    case (Some p)
    have other: "find (\<lambda>hb. hb_bone hb = role) (scan_human_bones armature post assigned hbs)
              = find (\<lambda>hb. hb_bone hb = role) hbs" if "\<And>b. p \<noteq> PropStr b"
      using that Some by (intro scan_keeps_settled_role) auto
    show ?thesis
    proof (cases p)
      case (PropStr b)
      show ?thesis
      proof (cases "b = [] \<or> b \<in> set assigned")
        case True
        have "find (\<lambda>hb. hb_bone hb = role) (scan_human_bones armature post assigned hbs)
              = find (\<lambda>hb. hb_bone hb = role) hbs"
          using True Some PropStr by (intro scan_keeps_settled_role) auto
        then show ?thesis using True Some PropStr by (auto simp: option.map_ident)
      next
        case False
        have "find (\<lambda>hb. hb_bone hb = role)
                (scan_human_bones armature post (assigned @ [b]) (assign_human_bone hbs role b))
              = find (\<lambda>hb. hb_bone hb = role) (assign_human_bone hbs role b)"
          using Some PropStr by (intro scan_keeps_settled_role) auto
        then show ?thesis
          using False Some PropStr by (simp add: find_assign_human_bone_same)
      qed
    qed (use Some other in \<open>simp_all add: option.map_ident\<close>)
  qed
next
  case (Cons n pre)
  then have ne: "role \<noteq> n" and nin: "role \<notin> set pre" by auto
  show ?case
  proof (cases "armature_data_get armature n")
    case None
    then show ?thesis using Cons.IH[OF nin, of assigned hbs]
      by (auto intro!: map_option_cong split: option.splits idprop.splits)
  next
    case (Some p)
    show ?thesis
    proof (cases p)
      case (PropStr bn)
      show ?thesis
      proof (cases "bn = [] \<or> bn \<in> set assigned")
        case True
        then show ?thesis using Some PropStr Cons.IH[OF nin, of assigned hbs]
          by (auto intro!: map_option_cong split: option.splits idprop.splits)
      next
        case False
        then show ?thesis
          using Some PropStr
            Cons.IH[OF nin, of "assigned @ [bn]" "assign_human_bone hbs n bn"] ne
          by (auto simp: find_assign_human_bone_other intro!: map_option_cong
                split: option.splits idprop.splits)
      qed
    qed (use Some Cons.IH[OF nin, of assigned hbs] in
          \<open>auto intro!: map_option_cong split: option.splits idprop.splits\<close>)
  qed
qed

text \<open>
  Claim C9. The roles are traversed in a given order, \<open>pre\<close> before \<open>role\<close> and
  \<open>post\<close> after it, \<open>role\<close> being visited here for the first time. The scan reads one
  attribute for the role. The entry of the humanoid for the role (the first one with
  that role) gets the bone \<open>b\<close> exactly when the attribute is the non-empty string \<open>b\<close>
  and no role earlier in the traversal has an attribute naming \<open>b\<close>; in every other
  case (no attribute, not a string, empty, or a bone an earlier role named) the entry
  is what it was before the scan. So of several roles naming one bone only the
  earliest is assigned, and the later ones are skipped.
\<close>

theorem legacy_bone_attributes_first_writer_wins:
  "role \<notin> set pre \<Longrightarrow>
   find (\<lambda>hb. hb_bone hb = role)
     (scan_human_bones armature (pre @ role # post) [] human_bones)
   = map_option
       (\<lambda>hb. case armature_data_get armature role of
                Some (PropStr b) \<Rightarrow>
                  if b \<noteq> [] \<and> (\<forall>r \<in> set pre. armature_data_get armature r \<noteq> Some (PropStr b))
                  then hb\<lparr>hb_node := b\<rparr> else hb
              | _ \<Rightarrow> hb)
       (find (\<lambda>hb. hb_bone hb = role) human_bones)"
  using scan_human_bones_role[of role pre armature post "[]" human_bones]
  by (simp cong: option.case_cong idprop.case_cong)

theorem legacy_bone_attributes_first_writer_wins_witness:
  "find (\<lambda>hb. hb_bone hb = ''hips'')
     (scan_human_bones
        (sample_rig [(''hips'', PropStr ''Spine''), (''head'', PropStr ''Spine''),
                     (''leftUpperArm'', PropStr [])] [])
        [''hips'', ''head'', ''leftUpperArm''] [] sample_human_bones)
     = Some \<lparr>hb_bone = ''hips'', hb_node = ''Spine''\<rparr>
   \<and> find (\<lambda>hb. hb_bone hb = ''head'')
       (scan_human_bones
          (sample_rig [(''hips'', PropStr ''Spine''), (''head'', PropStr ''Spine''),
                       (''leftUpperArm'', PropStr [])] [])
          [''hips'', ''head'', ''leftUpperArm''] [] sample_human_bones)
     = Some \<lparr>hb_bone = ''head'', hb_node = []\<rparr>"
  using
    legacy_bone_attributes_first_writer_wins
      [of "''hips''" "[]"
          "sample_rig [(''hips'', PropStr ''Spine''), (''head'', PropStr ''Spine''),
                       (''leftUpperArm'', PropStr [])] []"
          "[''head'', ''leftUpperArm'']" sample_human_bones]
    legacy_bone_attributes_first_writer_wins
      [of "''head''" "[''hips'']"
          "sample_rig [(''hips'', PropStr ''Spine''), (''head'', PropStr ''Spine''),
                       (''leftUpperArm'', PropStr [])] []"
          "[''leftUpperArm'']" sample_human_bones]
  by (simp add: sample_rig_def armature_data_get_def sample_human_bones_def)

subsection \<open>The reconstruction of the collider groups\<close>

lemma dict_append_keys:
  "map fst (dict_append d c)
   = (if ob_parent_bone c \<in> set (map fst d) then map fst d
      else map fst d @ [ob_parent_bone c])"
  by (induction d c rule: dict_append.induct) auto

lemma dict_append_map_of:
  "map_of (dict_append d c) k
   = (if k = ob_parent_bone c
      then Some ((case map_of d k of None \<Rightarrow> [] | Some v \<Rightarrow> v) @ [c])
      else map_of d k)"
  by (induction d c rule: dict_append.induct) auto

lemma bone_name_to_collider_objects_snoc:
  "bone_name_to_collider_objects (objs @ [c])
   = dict_append (bone_name_to_collider_objects objs) c"
  by (simp add: bone_name_to_collider_objects_def)

text \<open>The keys of the dict are the parent bones of the markers, each once.\<close>

lemma bone_name_to_collider_objects_keys:
  "distinct (map fst (bone_name_to_collider_objects objs))
   \<and> set (map fst (bone_name_to_collider_objects objs)) = ob_parent_bone ` set objs"
proof (induction objs rule: rev_induct)
  case Nil
  then show ?case by (simp add: bone_name_to_collider_objects_def)
next
  case (snoc c objs)
  then show ?case
    by (auto simp: bone_name_to_collider_objects_snoc dict_append_keys)
qed

lemma no_marker_of_bone:
  "k \<notin> ob_parent_bone ` set objs \<Longrightarrow> [] = filter (\<lambda>c. ob_parent_bone c = k) objs"
  by (induction objs) auto

text \<open>The value under a bone is the list of its markers, in the order of the scan.\<close>

lemma bone_name_to_collider_objects_map_of:
  "map_of (bone_name_to_collider_objects objs) k
   = (if k \<in> ob_parent_bone ` set objs
      then Some (filter (\<lambda>c. ob_parent_bone c = k) objs) else None)"
proof (induction objs rule: rev_induct)
  case Nil
  then show ?case by (simp add: bone_name_to_collider_objects_def)
next
  case (snoc c objs)
  then show ?case
    by (auto simp: bone_name_to_collider_objects_snoc dict_append_map_of
          intro: no_marker_of_bone)
qed

lemma bone_name_to_collider_objects_items:
  assumes "(k, v) \<in> set (bone_name_to_collider_objects objs)"
  shows "v = filter (\<lambda>c. ob_parent_bone c = k) objs"
proof -
  have "map_of (bone_name_to_collider_objects objs) k = Some v"
    using assms bone_name_to_collider_objects_keys[of objs] by simp
  then show ?thesis
    by (simp add: bone_name_to_collider_objects_map_of split: if_splits)
qed

lemma add_collider_groups_nodes:
  "map cg_node (add_collider_groups H items n) = map fst items"
  by (induction H items n rule: add_collider_groups.induct) simp_all

lemma add_collider_groups_uuids:
  "map cg_uuid (add_collider_groups H items n) = [n ..< n + length items]"
  by (induction H items n rule: add_collider_groups.induct) (simp_all add: upt_rec)

lemma add_collider_groups_length:
  "length (add_collider_groups H items n) = length items"
  by (induction H items n rule: add_collider_groups.induct) simp_all

lemma add_collider_groups_item:
  "g \<in> set (add_collider_groups H items n)
   \<Longrightarrow> \<exists>v. (cg_node g, v) \<in> set items
           \<and> cg_colliders g
             = map (\<lambda>collider_object. \<lparr>col_blender_object = Some collider_object\<rparr>) v"
  by (induction H items n rule: add_collider_groups.induct) auto

text \<open>
  When \<^verbatim>\<open>migrate_vrm0_secondary_animation\<close> returns, every legacy bone group was
  migrated without an exception, and the document holds the collider groups the first
  part of the function left.
\<close>

lemma secondary_animation_Inr:
  "migrate_vrm0_secondary_animation H armature sa dicts n = Inr (sa', n')
   \<longleftrightarrow> (\<exists>bgs. for_each (migrate_bone_group H
                   (sa_collider_groups (fst (reconstruct_collider_groups H armature sa n))))
                 (case iterate dicts of Some ds \<Rightarrow> ds | None \<Rightarrow> []) = Inr bgs
         \<and> sa' = (fst (reconstruct_collider_groups H armature sa n))
                   \<lparr>sa_bone_groups := map (bone_group_refresh H armature) (sa_bone_groups sa @ bgs)\<rparr>
         \<and> n' = snd (reconstruct_collider_groups H armature sa n))"
  by (auto simp: migrate_vrm0_secondary_animation_def Let_def and_then_Inr
        reconstruct_collider_groups_def split: prod.splits)


text \<open>
  Claim C4. The markers are the children found by the scan (empties displayed as
  spheres, parented to a bone of the rig). The reconstruction, which is the first part
  of \<^verbatim>\<open>migrate_vrm0_secondary_animation\<close> and raises nothing, appends a list \<open>new\<close>
  of collider groups to those the document held, and then refreshes every group; these
  are the collider groups of the document whenever the whole function returns. In
  \<open>new\<close> there is exactly one group per parent bone of a marker (the nodes are
  distinct, they are the parent bones, and there are as many groups as parent bones:
  one for N markers on one bone, two for markers on two bones); the identifiers are the
  next draws of the identifier source, so they are new and pairwise distinct; and the
  colliders of a group wrap the markers parented to its bone, all of them and in the
  order of the scan.
\<close>

theorem collider_groups_reconstructed_per_bone:
  "\<exists>new.
     reconstruct_collider_groups H armature sa n
       = (sa\<lparr>sa_collider_groups :=
               map (collider_group_refresh H armature) (sa_collider_groups sa @ new)\<rparr>,
          n + length new)
     \<and> (\<forall>r. migrate_vrm0_secondary_animation H armature sa dicts n = Inr r
            \<longrightarrow> sa_collider_groups (fst r)
                  = map (collider_group_refresh H armature) (sa_collider_groups sa @ new)
                \<and> snd r = n + length new)
     \<and> distinct (map cg_node new)
     \<and> set (map cg_node new) = ob_parent_bone ` set (collider_objects armature)
     \<and> length new = card (ob_parent_bone ` set (collider_objects armature))
     \<and> map cg_uuid new = [n ..< n + length new]
     \<and> (\<forall>g \<in> set new.
           cg_colliders g
           = map (\<lambda>collider_object. \<lparr>col_blender_object = Some collider_object\<rparr>)
               (filter (\<lambda>c. ob_parent_bone c = cg_node g) (collider_objects armature)))"
proof -
  let ?objs = "collider_objects armature"
  let ?items = "bone_name_to_collider_objects ?objs"
  let ?new = "add_collider_groups H ?items n"
  have keys: "distinct (map fst ?items)" "set (map fst ?items) = ob_parent_bone ` set ?objs"
    using bone_name_to_collider_objects_keys[of ?objs] by simp_all
  have len: "length ?new = length ?items" by (rule add_collider_groups_length)
  have 1: "reconstruct_collider_groups H armature sa n
       = (sa\<lparr>sa_collider_groups :=
               map (collider_group_refresh H armature) (sa_collider_groups sa @ ?new)\<rparr>,
          n + length ?new)"
    by (simp add: reconstruct_collider_groups_def Let_def len)
  have 2: "\<forall>r. migrate_vrm0_secondary_animation H armature sa dicts n = Inr r
            \<longrightarrow> sa_collider_groups (fst r)
                  = map (collider_group_refresh H armature) (sa_collider_groups sa @ ?new)
                \<and> snd r = n + length ?new"
    by (auto simp: secondary_animation_Inr 1)
  have 3: "distinct (map cg_node ?new)"
    using keys by (simp add: add_collider_groups_nodes)
  have 4: "set (map cg_node ?new) = ob_parent_bone ` set ?objs"
    using keys by (simp add: add_collider_groups_nodes)
  have 5: "length ?new = card (ob_parent_bone ` set ?objs)"
    using distinct_card[OF keys(1)] keys(2) len by simp
  have 6: "map cg_uuid ?new = [n ..< n + length ?new]"
    by (simp add: add_collider_groups_uuids len)
  have 7: "\<forall>g \<in> set ?new. cg_colliders g
           = map (\<lambda>collider_object. \<lparr>col_blender_object = Some collider_object\<rparr>)
               (filter (\<lambda>c. ob_parent_bone c = cg_node g) ?objs)"
  proof
    fix g assume "g \<in> set ?new"
    then obtain v where v: "(cg_node g, v) \<in> set ?items"
      and c: "cg_colliders g
              = map (\<lambda>collider_object. \<lparr>col_blender_object = Some collider_object\<rparr>) v"
      using add_collider_groups_item by blast
    from bone_name_to_collider_objects_items[OF v] c
    show "cg_colliders g
          = map (\<lambda>collider_object. \<lparr>col_blender_object = Some collider_object\<rparr>)
              (filter (\<lambda>c. ob_parent_bone c = cg_node g) ?objs)" by simp
  qed
  from 1 2 3 4 5 6 7 show ?thesis by blast
qed

lemmas secondary_animation_example =
  migrate_vrm0_secondary_animation_def reconstruct_collider_groups_def and_then_def
  sample_host_def sample_rig_with_markers_def
  sample_secondary_animation_def sample_bone_group_dicts_def sample_collider_group_names_def
  sample_rig_def marker_def collider_objects_def bone_name_to_collider_objects_def
  sample_refresh_def migrate_bone_group_def add_bone_group_def add_collider_group_def
  assign_gravity_dir_def add_bones_def add_collider_group_names_def
  dict_get_def Let_def assign_str_def assign_number_def assignable_def sample_vector3_def
  vector_property_def

theorem collider_groups_reconstructed_per_bone_witness:
  "reconstruct_collider_groups sample_host sample_rig_with_markers
     \<lparr>sa_collider_groups = [], sa_bone_groups = []\<rparr> 0
   = (\<lparr>sa_collider_groups =
        [\<lparr>cg_uuid = 0, cg_name = ''Head#'', cg_node = ''Head'',
          cg_colliders = [\<lparr>col_blender_object = Some (marker ''A'' ''Head'')\<rparr>,
                          \<lparr>col_blender_object = Some (marker ''C'' ''Head'')\<rparr>]\<rparr>,
         \<lparr>cg_uuid = 1, cg_name = ''Hips#i'', cg_node = ''Hips'',
          cg_colliders = [\<lparr>col_blender_object = Some (marker ''B'' ''Hips'')\<rparr>]\<rparr>],
       sa_bone_groups = []\<rparr>, 2)
   \<and> migrate_vrm0_secondary_animation sample_host sample_rig_with_markers
       \<lparr>sa_collider_groups = [], sa_bone_groups = []\<rparr> JNull 0
     = Inr (reconstruct_collider_groups sample_host sample_rig_with_markers
              \<lparr>sa_collider_groups = [], sa_bone_groups = []\<rparr> 0)"
  using collider_groups_reconstructed_per_bone [of sample_host sample_rig_with_markers
               "\<lparr>sa_collider_groups = [], sa_bone_groups = []\<rparr>" 0 JNull]
  by (simp add: secondary_animation_example)

subsection \<open>The collider groups a bone group refers to\<close>









subsection \<open>The exchange of the axes\<close>







subsection \<open>Target values of a material value bind\<close>

lemma migrate_target_value_element_Inr:
  "migrate_target_value_element H v = Inr x
   \<longleftrightarrow> assignable H (if is_int_or_float v then v else JInt 0)
       \<and> x = float_property H ''value'' (if is_int_or_float v then to_float v else 0)"
  by (auto simp: migrate_target_value_element_def Let_def)

lemma migrate_target_value_Inr:
  assumes "migrate_target_value H vs = Inr entries"
  shows "entries = map (\<lambda>v. float_property H ''value''
                             (if is_int_or_float v then to_float v else 0)) vs"
    and "\<forall>v \<in> set vs. assignable H (if is_int_or_float v then v else JInt 0)"
proof -
  from assms have all: "list_all2 (\<lambda>v x. migrate_target_value_element H v = Inr x) vs entries"
    by (simp add: migrate_target_value_def for_each_Inr)
  then show "entries = map (\<lambda>v. float_property H ''value''
                             (if is_int_or_float v then to_float v else 0)) vs"
    by (induction rule: list_all2_induct) (simp_all add: migrate_target_value_element_Inr)
  from all show "\<forall>v \<in> set vs. assignable H (if is_int_or_float v then v else JInt 0)"
    by (induction rule: list_all2_induct) (simp_all add: migrate_target_value_element_Inr)
qed

lemma migrate_target_value_returns:
  assumes "\<forall>v \<in> set vs. assignable H (if is_int_or_float v then v else JInt 0)"
  shows "\<exists>entries. migrate_target_value H vs = Inr entries"
  unfolding migrate_target_value_def
  by (rule for_each_all_Inr) (use assms in \<open>simp add: migrate_target_value_element_def Let_def\<close>)

lemma migrate_material_value_target_value:
  assumes "iterate (dict_get m ''targetValue'') = Some vs"
    and "migrate_material_value H armature (JObject m) = Inr mv"
  shows "migrate_target_value H vs = Inr (mv_target_value mv)"
proof -
  let ?v1 = "case dict_get m ''materialName'' of
               JString material_name \<Rightarrow>
                 (if material_name \<in> set (data_materials armature)
                  then (add_material_value H)\<lparr>mv_material := Some material_name\<rparr>
                  else add_material_value H)
             | _ \<Rightarrow> add_material_value H"
  let ?v2 = "assign_str (dict_get m ''propertyName'') (\<lambda>s v. v\<lparr>mv_property_name := s\<rparr>) ?v1"
  have "mv_target_value ?v1 = []"
    by (simp add: add_material_value_def split: json.splits)
  then have empty: "mv_target_value ?v2 = []"
    by (simp add: assign_str_frame)
  from assms obtain entries where e: "migrate_target_value H vs = Inr entries"
    and mv: "mv = ?v2\<lparr>mv_target_value := mv_target_value ?v2 @ entries\<rparr>"
    by (auto simp: migrate_material_value_def Let_def and_then_Inr)
  from mv empty have "mv_target_value mv = entries" by simp
  with e show ?thesis by simp
qed

lemma migrate_blend_shape_group_material_value:
  assumes "iterate (dict_get g ''materialValues'') = Some ms" and "j < length ms"
    and "migrate_blend_shape_group H armature (JObject g) = Inr bsg"
  shows "migrate_material_value H armature (ms ! j) = Inr (bsg_material_values bsg ! j)"
proof -
  from assms(1,3) obtain g1 g2 binds mvs where
    g1: "assign_not_none (dict_get g ''name'') (\<lambda>s g. g\<lparr>bsg_name := s\<rparr>)
           (add_blend_shape_group H) = Inr g1"
    and g2: "assign_not_none (dict_get g ''presetName'') (\<lambda>s g. g\<lparr>bsg_preset_name := s\<rparr>) g1
             = Inr g2"
    and mvs: "for_each (migrate_material_value H armature) ms = Inr mvs"
    and bsg: "bsg = assign_bool (dict_get g ''isBinary'') (\<lambda>b g. g\<lparr>bsg_is_binary := b\<rparr>)
                      (g2\<lparr>bsg_binds := bsg_binds g2 @ binds,
                          bsg_material_values := bsg_material_values g2 @ mvs\<rparr>)"
    by (auto simp: migrate_blend_shape_group_def and_then_Inr)
  have "bsg_material_values g1 = []"
    using assign_not_none_frame[OF g1, of bsg_material_values]
    by (simp add: add_blend_shape_group_def)
  then have "bsg_material_values g2 = []"
    using assign_not_none_frame[OF g2, of bsg_material_values] by simp
  then have "bsg_material_values bsg = mvs"
    using bsg by (simp add: assign_bool_frame)
  with for_each_nth[OF mvs assms(2)] show ?thesis by simp
qed

lemma blend_shape_groups_group:
  assumes "iterate blend_shape_group_dicts = Some gs" and "i < length gs"
    and "migrate_vrm0_blend_shape_groups H armature blend_shape_groups blend_shape_group_dicts
         = Inr groups"
  shows "migrate_blend_shape_group H armature (gs ! i)
         = Inr (groups ! (length blend_shape_groups + i))"
proof -
  from assms(1,3) obtain new where
    new: "for_each (migrate_blend_shape_group H armature) gs = Inr new"
    and groups: "groups = blend_shape_groups @ new"
    by (auto simp: migrate_vrm0_blend_shape_groups_def and_then_Inr)
  from for_each_nth[OF new assms(2)] groups show ?thesis by simp
qed

text \<open>
  The claim as stated fails for an element that is an integer beyond the range of a
  float: it passes \<^verbatim>\<open>isinstance(v, (int, float))\<close>, the assignment to the new entry
  raises, and the exception leaves the migrator, so the elements after it produce no
  entry.
\<close>

theorem target_value_beyond_float_range_raises:
  "migrate_vrm0_blend_shape_groups sample_host (sample_rig [] []) []
     (JArray [JObject [(''materialValues'',
        JArray [JObject [(''targetValue'', JArray [JInt (2 ^ 1024), JInt 1])]])]])
   = Inl TypeError"
  by (simp add: migrate_vrm0_blend_shape_groups_def migrate_blend_shape_group_def
        migrate_material_value_def migrate_target_value_def
        migrate_target_value_element_def assign_not_none_def and_then_def dict_get_def
        assignable_def sample_host_def Let_def)

text \<open>
  Claim C10, amended. Take the legacy blend shape group at position \<open>i\<close>, its
  material value at position \<open>j\<close>, both dicts, with an iterable \<open>vs\<close> under
  \<^verbatim>\<open>targetValue\<close>, and a run of \<^verbatim>\<open>migrate_vrm0_blend_shape_groups\<close> that returns.
  The target values of the record made for the material value are, in order, one number
  per element: what the host keeps of the element itself when it passes
  \<^verbatim>\<open>isinstance(v, (int, float))\<close> (a Python number, the booleans among them), and
  of 0 otherwise. No element is skipped, so the vector is as long as the iterable. The
  migrator returns only if the host takes every element for a float property.
\<close>

theorem target_value_one_entry_per_element:
  assumes "iterate blend_shape_group_dicts = Some gs" and "i < length gs"
    and "gs ! i = JObject g"
    and "iterate (dict_get g ''materialValues'') = Some ms" and "j < length ms"
    and "ms ! j = JObject m"
    and "iterate (dict_get m ''targetValue'') = Some vs"
    and "migrate_vrm0_blend_shape_groups H armature blend_shape_groups blend_shape_group_dicts
         = Inr groups"
  shows "mv_target_value
           (bsg_material_values (groups ! (length blend_shape_groups + i)) ! j)
         = map (\<lambda>v. float_property H ''value'' (if is_int_or_float v then to_float v else 0)) vs
       \<and> length (mv_target_value
                   (bsg_material_values (groups ! (length blend_shape_groups + i)) ! j))
         = length vs
       \<and> (\<forall>v \<in> set vs. assignable H (if is_int_or_float v then v else JInt 0))"
proof -
  let ?mv = "bsg_material_values (groups ! (length blend_shape_groups + i)) ! j"
  have "migrate_blend_shape_group H armature (JObject g)
        = Inr (groups ! (length blend_shape_groups + i))"
    using blend_shape_groups_group[OF assms(1,2,8)] assms(3) by simp
  then have "migrate_material_value H armature (JObject m) = Inr ?mv"
    using migrate_blend_shape_group_material_value[OF assms(4,5)] assms(6) by simp
  then have "migrate_target_value H vs = Inr (mv_target_value ?mv)"
    using migrate_material_value_target_value[OF assms(7)] by simp
  from migrate_target_value_Inr[OF this] show ?thesis by simp
qed

theorem target_value_one_entry_per_element_witness:
  "\<exists>groups.
     migrate_vrm0_blend_shape_groups sample_host (sample_rig [] []) []
       (JArray [JObject [(''materialValues'',
          JArray [JInt 7,
                  JObject [(''targetValue'',
                     JArray [JFloat 0.5, JString ''x'', JNull, JInt 2])]])]]) = Inr groups
     \<and> mv_target_value (bsg_material_values (groups ! 0) ! 1) = [0.5, 0, 0, 2]"
proof -
  obtain groups where r:
    "migrate_vrm0_blend_shape_groups sample_host (sample_rig [] []) []
       (JArray [JObject [(''materialValues'',
          JArray [JInt 7,
                  JObject [(''targetValue'',
                     JArray [JFloat 0.5, JString ''x'', JNull, JInt 2])]])]]) = Inr groups"
    by (simp add: migrate_vrm0_blend_shape_groups_def migrate_blend_shape_group_def
          migrate_material_value_def migrate_target_value_def
          migrate_target_value_element_def assign_not_none_def and_then_def dict_get_def
          assignable_def sample_host_def Let_def)
  from target_value_one_entry_per_element [of "JArray [JObject [(''materialValues'',
                  JArray [JInt 7,
                          JObject [(''targetValue'',
                             JArray [JFloat 0.5, JString ''x'', JNull, JInt 2])]])]]"
               "[JObject [(''materialValues'',
                  JArray [JInt 7,
                          JObject [(''targetValue'',
                             JArray [JFloat 0.5, JString ''x'', JNull, JInt 2])]])]]" 0
               "[(''materialValues'',
                  JArray [JInt 7,
                          JObject [(''targetValue'',
                             JArray [JFloat 0.5, JString ''x'', JNull, JInt 2])]])]"
               "[JInt 7, JObject [(''targetValue'',
                             JArray [JFloat 0.5, JString ''x'', JNull, JInt 2])]]" 1
               "[(''targetValue'', JArray [JFloat 0.5, JString ''x'', JNull, JInt 2])]"
               "[JFloat 0.5, JString ''x'', JNull, JInt 2]"
               sample_host "sample_rig [] []" "[]" groups] r
  have "mv_target_value (bsg_material_values (groups ! 0) ! 1) = [0.5, 0, 0, 2]"
    by (simp add: dict_get_def sample_host_def)
  with r show ?thesis by simp
qed

subsection \<open>Running the orchestrator twice\<close>

lemma backfill_first_person_bone_twice:
  "backfill_first_person_bone (backfill_first_person_bone fp hbs) hbs
   = backfill_first_person_bone fp hbs"
  by (induction hbs) auto

lemma sample_fixup_keeps_roles:
  "hb_bone ` set hbs \<subseteq> hb_bone ` set (sample_fixup roles hbs)"
proof (induction roles arbitrary: hbs)
  case Nil
  then show ?case by simp
next
  case (Cons role roles)
  show ?case
  proof (cases "role \<in> set (map hb_bone hbs)")
    case True
    then show ?thesis using Cons[of hbs] by simp
  next
    case False
    then show ?thesis using Cons[of "hbs @ [\<lparr>hb_bone = role, hb_node = []\<rparr>]"] by auto
  qed
qed

lemma sample_fixup_covers:
  "set roles \<subseteq> hb_bone ` set (sample_fixup roles hbs)"
proof (induction roles arbitrary: hbs)
  case Nil
  then show ?case by simp
next
  case (Cons role roles)
  show ?case
  proof (cases "role \<in> set (map hb_bone hbs)")
    case True
    then show ?thesis using Cons[of hbs] sample_fixup_keeps_roles[of hbs roles] by auto
  next
    case False
    then show ?thesis
      using Cons[of "hbs @ [\<lparr>hb_bone = role, hb_node = []\<rparr>]"]
        sample_fixup_keeps_roles[of "hbs @ [\<lparr>hb_bone = role, hb_node = []\<rparr>]" roles]
      by auto
  qed
qed

lemma sample_fixup_fixed:
  "set roles \<subseteq> hb_bone ` set hbs \<Longrightarrow> sample_fixup roles hbs = hbs"
  by (induction roles arbitrary: hbs) auto

lemma sample_fixup_twice:
  "sample_fixup roles (sample_fixup roles hbs) = sample_fixup roles hbs"
  by (rule sample_fixup_fixed) (rule sample_fixup_covers)

lemmas orchestrator_example =
  migrate_def migrate_legacy_custom_properties_def and_then_def Let_def
  migrate_vrm0_meta_def str_attribute_def armature_get_def armature_data_get_def
  read_textblock_json_def migrate_vrm0_blend_shape_groups_def migrate_vrm0_first_person_def
  migrate_vrm0_humanoid_def migrate_vrm0_secondary_animation_def
  reconstruct_collider_groups_def collider_objects_def
  bone_name_to_collider_objects_def sample_host_def sample_rig_def sample_extension_def
  sample_refresh_def marker_def add_collider_group_def

text \<open>
  The claim as stated fails: the orchestrator does not advance the version, so on a rig
  below (2, 0, 1) the second run passes the gate again and migrates again. With one
  marker on \<^verbatim>\<open>Head\<close> the first run leaves one collider group and the second run two.
\<close>

theorem second_run_changes_legacy_rig:
  "run_twice sample_host (sample_rig [] [marker ''A'' ''Head'']) (sample_extension (1, 0, 0))
   \<noteq> migrate sample_host (sample_rig [] [marker ''A'' ''Head'']) (sample_extension (1, 0, 0))"
  by (simp add: run_twice_def orchestrator_example)

text \<open>
  Claim C2, amended. For every rig whose stored \<^verbatim>\<open>addon_version\<close> is at least
  (2, 0, 1), every starting document, and collaborators whose fixup of the humanoid's
  entries and whose refresh of collider groups and bone groups are idempotent on this
  rig, the first run of the orchestrator returns a document, and the second run,
  started from that document, returns the same document: it makes no further change.
\<close>

theorem second_run_changes_nothing_once_up_to_date:
  assumes gate: "tuple_ge (addon_version ext) (2, 0, 1)"
    and fixup: "\<forall>hbs. fixup_human_bones H armature (fixup_human_bones H armature hbs)
                      = fixup_human_bones H armature hbs"
    and cg: "\<forall>g. collider_group_refresh H armature (collider_group_refresh H armature g)
                = collider_group_refresh H armature g"
    and bg: "\<forall>g. bone_group_refresh H armature (bone_group_refresh H armature g)
                = bone_group_refresh H armature g"
  shows "\<exists>ext1. migrate H armature ext = Inr ext1 \<and> migrate H armature ext1 = Inr ext1"
proof -
  let ?v = "ext_vrm0 ext"
  let ?hbs = "fixup_human_bones H armature (hum_human_bones (vrm0_humanoid ?v))"
  let ?fp = "if fp_first_person_bone (vrm0_first_person ?v) = []
             then backfill_first_person_bone (vrm0_first_person ?v) ?hbs
             else vrm0_first_person ?v"
  let ?ext1 = "ext\<lparr>ext_vrm0 := ?v
     \<lparr>vrm0_humanoid := (vrm0_humanoid ?v)
          \<lparr>hum_human_bones := ?hbs,
           hum_last_bone_names := check_last_bone_names_and_update H armature\<rparr>,
      vrm0_first_person := ?fp,
      vrm0_secondary_animation := (vrm0_secondary_animation ?v)
          \<lparr>sa_collider_groups := map (collider_group_refresh H armature)
                                  (sa_collider_groups (vrm0_secondary_animation ?v)),
           sa_bone_groups := map (bone_group_refresh H armature)
                                  (sa_bone_groups (vrm0_secondary_animation ?v))\<rparr>\<rparr>\<rparr>"
  have first: "migrate H armature ext = Inr ?ext1"
    using gate
    by (simp add: migrate_def migrate_legacy_custom_properties_def and_then_def Let_def)
  have fp: "(if fp_first_person_bone ?fp = [] then backfill_first_person_bone ?fp ?hbs
             else ?fp) = ?fp"
    by (simp add: backfill_first_person_bone_twice)
  have second: "migrate H armature ?ext1 = Inr ?ext1"
    using gate fixup cg bg fp
    by (simp add: migrate_def migrate_legacy_custom_properties_def and_then_def Let_def
          backfill_first_person_bone_twice)
  from first second show ?thesis by blast
qed

theorem second_run_changes_nothing_once_up_to_date_witness:
  "tuple_ge (addon_version (sample_extension (2, 0, 1))) (2, 0, 1)
   \<and> (\<exists>ext1. migrate sample_host
                 (sample_rig [(''head'', PropStr ''Head'')] [marker ''A'' ''Head''])
                 (sample_extension (2, 0, 1)) = Inr ext1
             \<and> migrate sample_host
                 (sample_rig [(''head'', PropStr ''Head'')] [marker ''A'' ''Head''])
                 ext1 = Inr ext1)"
proof -
  have gate: "tuple_ge (addon_version (sample_extension (2, 0, 1))) (2, 0, 1)"
    by (simp add: sample_extension_def)
  have fixup: "\<forall>hbs. fixup_human_bones sample_host
                       (sample_rig [(''head'', PropStr ''Head'')] [marker ''A'' ''Head''])
                       (fixup_human_bones sample_host
                          (sample_rig [(''head'', PropStr ''Head'')] [marker ''A'' ''Head''])
                          hbs)
                     = fixup_human_bones sample_host
                         (sample_rig [(''head'', PropStr ''Head'')] [marker ''A'' ''Head''])
                         hbs"
    by (simp add: sample_host_def sample_fixup_twice)
  have cg: "\<forall>g. collider_group_refresh sample_host
                     (sample_rig [(''head'', PropStr ''Head'')] [marker ''A'' ''Head''])
                     (collider_group_refresh sample_host
                        (sample_rig [(''head'', PropStr ''Head'')] [marker ''A'' ''Head'']) g)
                   = collider_group_refresh sample_host
                       (sample_rig [(''head'', PropStr ''Head'')] [marker ''A'' ''Head'']) g"
    by (simp add: sample_host_def sample_refresh_def)
  have bg: "\<forall>g. bone_group_refresh sample_host
                     (sample_rig [(''head'', PropStr ''Head'')] [marker ''A'' ''Head''])
                     (bone_group_refresh sample_host
                        (sample_rig [(''head'', PropStr ''Head'')] [marker ''A'' ''Head'']) g)
                   = bone_group_refresh sample_host
                       (sample_rig [(''head'', PropStr ''Head'')] [marker ''A'' ''Head'']) g"
    by (simp add: sample_host_def)
  from gate second_run_changes_nothing_once_up_to_date[OF gate fixup cg bg]
  show ?thesis by blast
qed

subsection \<open>The end-to-end example on the role head\<close>

text \<open>
  Claim C5, evaluated. The rig is at version (1, 0, 0), carries no text attachment and
  one legacy attribute, \<^verbatim>\<open>head\<close> naming the bone \<^verbatim>\<open>Head\<close>. One run of the
  orchestrator leaves the version alone and gives the entry for \<^verbatim>\<open>head\<close> the bone
  \<^verbatim>\<open>Head\<close>, but the first-person bone stays empty: the backfill runs before the
  legacy attributes are scanned, when the entry for \<^verbatim>\<open>head\<close> is still empty. Only a
  second run backfills \<^verbatim>\<open>Head\<close>.
\<close>

theorem first_run_leaves_first_person_bone_empty:
  "head_summary
     (migrate sample_host (sample_rig [(''head'', PropStr ''Head'')] [])
        (sample_extension (1, 0, 0)))
     = Inr ((1, 0, 0), [''Head''], [])
   \<and> head_summary
       (run_twice sample_host (sample_rig [(''head'', PropStr ''Head'')] [])
          (sample_extension (1, 0, 0)))
     = Inr ((1, 0, 0), [''Head''], ''Head'')"
  by (simp add: head_summary_def run_twice_def orchestrator_example)

text \<open>
  After that first run the document does not pass the source's own test
  \<^verbatim>\<open>is_unnecessary\<close>: the first-person bone is unset while the entry for \<^verbatim>\<open>head\<close>
  holds a bone.
\<close>

lemma first_run_is_not_unnecessary:
  "map_sum id (\<lambda>ext. is_unnecessary (ext_vrm0 ext))
     (migrate sample_host (sample_rig [(''head'', PropStr ''Head'')] [])
        (sample_extension (1, 0, 0)))
   = Inr False"
  by (simp add: is_unnecessary_def orchestrator_example)

subsection \<open>Fields assigned without a test of their type\<close>

text \<open>
  Claim C6, evaluated. A blend shape group whose \<^verbatim>\<open>name\<close> is the number 5: the
  migrator assigns it whenever it is not \<^verbatim>\<open>None\<close>, the host refuses a number for a
  string property, and the \<^verbatim>\<open>TypeError\<close> leaves the migrator; read from the
  attachment \<^verbatim>\<open>blendshape_group\<close> of a rig, it leaves the orchestrator as well.
\<close>

theorem blend_shape_group_name_not_type_checked:
  "migrate_vrm0_blend_shape_groups sample_host (sample_rig [] []) []
     (JArray [JObject [(''name'', JInt 5)]]) = Inl TypeError
   \<and> migrate sample_host sample_rig_with_blend_shapes (sample_extension (1, 0, 0))
     = Inl TypeError"
  by (simp add: sample_rig_with_blend_shapes_def orchestrator_example sample_loads_def
        migrate_blend_shape_group_def assign_not_none_def dict_get_def)

text \<open>
  The fields of the humanoid are all behind a test: a value that fails
  \<^verbatim>\<open>isinstance(v, (int, float))\<close>, or \<^verbatim>\<open>isinstance(v, bool)\<close> for the flag, leaves
  the field as it was in the record the migrator returns, and the migrator returns
  whenever the host takes the seven numeric values for a float property (a value that
  fails the test is never assigned, so the host takes it).
\<close>

lemma humanoid_fields_skipped_on_mismatch:
  assumes "migrate_vrm0_humanoid H h (JObject d) = Inr h'"
  shows "(\<not> is_int_or_float (dict_get d ''armStretch'')
      \<longrightarrow> hum_arm_stretch h' = hum_arm_stretch h)
   \<and> (\<not> is_int_or_float (dict_get d ''legStretch'')
      \<longrightarrow> hum_leg_stretch h' = hum_leg_stretch h)
   \<and> (\<not> is_int_or_float (dict_get d ''upperArmTwist'')
      \<longrightarrow> hum_upper_arm_twist h' = hum_upper_arm_twist h)
   \<and> (\<not> is_int_or_float (dict_get d ''lowerArmTwist'')
      \<longrightarrow> hum_lower_arm_twist h' = hum_lower_arm_twist h)
   \<and> (\<not> is_int_or_float (dict_get d ''upperLegTwist'')
      \<longrightarrow> hum_upper_leg_twist h' = hum_upper_leg_twist h)
   \<and> (\<not> is_int_or_float (dict_get d ''lowerLegTwist'')
      \<longrightarrow> hum_lower_leg_twist h' = hum_lower_leg_twist h)
   \<and> (\<not> is_int_or_float (dict_get d ''feetSpacing'')
      \<longrightarrow> hum_feet_spacing h' = hum_feet_spacing h)
   \<and> (\<not> is_bool (dict_get d ''hasTranslationDoF'')
      \<longrightarrow> hum_has_translation_dof h' = hum_has_translation_dof h)"
proof -
  from assms obtain h1 h2 h3 h4 h5 h6 h7 where
    s1: "assign_number H ''arm_stretch'' (dict_get d ''armStretch'')
       (\<lambda>x h. h\<lparr>hum_arm_stretch := x\<rparr>) h = Inr h1"
    and s2: "assign_number H ''leg_stretch'' (dict_get d ''legStretch'')
       (\<lambda>x h. h\<lparr>hum_leg_stretch := x\<rparr>) h1 = Inr h2"
    and s3: "assign_number H ''upper_arm_twist'' (dict_get d ''upperArmTwist'')
       (\<lambda>x h. h\<lparr>hum_upper_arm_twist := x\<rparr>) h2 = Inr h3"
    and s4: "assign_number H ''lower_arm_twist'' (dict_get d ''lowerArmTwist'')
       (\<lambda>x h. h\<lparr>hum_lower_arm_twist := x\<rparr>) h3 = Inr h4"
    and s5: "assign_number H ''upper_leg_twist'' (dict_get d ''upperLegTwist'')
       (\<lambda>x h. h\<lparr>hum_upper_leg_twist := x\<rparr>) h4 = Inr h5"
    and s6: "assign_number H ''lower_leg_twist'' (dict_get d ''lowerLegTwist'')
       (\<lambda>x h. h\<lparr>hum_lower_leg_twist := x\<rparr>) h5 = Inr h6"
    and s7: "assign_number H ''feet_spacing'' (dict_get d ''feetSpacing'')
       (\<lambda>x h. h\<lparr>hum_feet_spacing := x\<rparr>) h6 = Inr h7"
    and h': "h' = assign_bool (dict_get d ''hasTranslationDoF'')
                    (\<lambda>b h. h\<lparr>hum_has_translation_dof := b\<rparr>) h7"
    by (auto simp: migrate_vrm0_humanoid_def and_then_Inr)
  have c1: "hum_arm_stretch h' = hum_arm_stretch h1"
    using assign_number_frame[OF s2, of hum_arm_stretch]
      assign_number_frame[OF s3, of hum_arm_stretch]
      assign_number_frame[OF s4, of hum_arm_stretch]
      assign_number_frame[OF s5, of hum_arm_stretch]
      assign_number_frame[OF s6, of hum_arm_stretch]
      assign_number_frame[OF s7, of hum_arm_stretch]
    by (simp add: h' assign_bool_frame)
  have c2: "hum_leg_stretch h' = hum_leg_stretch h2" "hum_leg_stretch h1 = hum_leg_stretch h"
    using assign_number_frame[OF s1, of hum_leg_stretch]
      assign_number_frame[OF s3, of hum_leg_stretch]
      assign_number_frame[OF s4, of hum_leg_stretch]
      assign_number_frame[OF s5, of hum_leg_stretch]
      assign_number_frame[OF s6, of hum_leg_stretch]
      assign_number_frame[OF s7, of hum_leg_stretch]
    by (simp_all add: h' assign_bool_frame)
  have c3: "hum_upper_arm_twist h' = hum_upper_arm_twist h3"
      "hum_upper_arm_twist h2 = hum_upper_arm_twist h"
    using assign_number_frame[OF s1, of hum_upper_arm_twist]
      assign_number_frame[OF s2, of hum_upper_arm_twist]
      assign_number_frame[OF s4, of hum_upper_arm_twist]
      assign_number_frame[OF s5, of hum_upper_arm_twist]
      assign_number_frame[OF s6, of hum_upper_arm_twist]
      assign_number_frame[OF s7, of hum_upper_arm_twist]
    by (simp_all add: h' assign_bool_frame)
  have c4: "hum_lower_arm_twist h' = hum_lower_arm_twist h4"
      "hum_lower_arm_twist h3 = hum_lower_arm_twist h"
    using assign_number_frame[OF s1, of hum_lower_arm_twist]
      assign_number_frame[OF s2, of hum_lower_arm_twist]
      assign_number_frame[OF s3, of hum_lower_arm_twist]
      assign_number_frame[OF s5, of hum_lower_arm_twist]
      assign_number_frame[OF s6, of hum_lower_arm_twist]
      assign_number_frame[OF s7, of hum_lower_arm_twist]
    by (simp_all add: h' assign_bool_frame)
  have c5: "hum_upper_leg_twist h' = hum_upper_leg_twist h5"
      "hum_upper_leg_twist h4 = hum_upper_leg_twist h"
    using assign_number_frame[OF s1, of hum_upper_leg_twist]
      assign_number_frame[OF s2, of hum_upper_leg_twist]
      assign_number_frame[OF s3, of hum_upper_leg_twist]
      assign_number_frame[OF s4, of hum_upper_leg_twist]
      assign_number_frame[OF s6, of hum_upper_leg_twist]
      assign_number_frame[OF s7, of hum_upper_leg_twist]
    by (simp_all add: h' assign_bool_frame)
  have c6: "hum_lower_leg_twist h' = hum_lower_leg_twist h6"
      "hum_lower_leg_twist h5 = hum_lower_leg_twist h"
    using assign_number_frame[OF s1, of hum_lower_leg_twist]
      assign_number_frame[OF s2, of hum_lower_leg_twist]
      assign_number_frame[OF s3, of hum_lower_leg_twist]
      assign_number_frame[OF s4, of hum_lower_leg_twist]
      assign_number_frame[OF s5, of hum_lower_leg_twist]
      assign_number_frame[OF s7, of hum_lower_leg_twist]
    by (simp_all add: h' assign_bool_frame)
  have c7: "hum_feet_spacing h' = hum_feet_spacing h7"
      "hum_feet_spacing h6 = hum_feet_spacing h"
    using assign_number_frame[OF s1, of hum_feet_spacing]
      assign_number_frame[OF s2, of hum_feet_spacing]
      assign_number_frame[OF s3, of hum_feet_spacing]
      assign_number_frame[OF s4, of hum_feet_spacing]
      assign_number_frame[OF s5, of hum_feet_spacing]
      assign_number_frame[OF s6, of hum_feet_spacing]
    by (simp_all add: h' assign_bool_frame)
  have c8: "hum_has_translation_dof h7 = hum_has_translation_dof h"
    using assign_number_frame[OF s1, of hum_has_translation_dof]
      assign_number_frame[OF s2, of hum_has_translation_dof]
      assign_number_frame[OF s3, of hum_has_translation_dof]
      assign_number_frame[OF s4, of hum_has_translation_dof]
      assign_number_frame[OF s5, of hum_has_translation_dof]
      assign_number_frame[OF s6, of hum_has_translation_dof]
      assign_number_frame[OF s7, of hum_has_translation_dof]
    by simp
  have bool: "\<not> is_bool (dict_get d ''hasTranslationDoF'') \<Longrightarrow> h' = h7"
    using h' by (cases "dict_get d ''hasTranslationDoF''") (simp_all add: assign_bool_def)
  show ?thesis
    using c1 c2 c3 c4 c5 c6 c7 c8 bool
      assign_number_skipped[OF s1] assign_number_skipped[OF s2] assign_number_skipped[OF s3]
      assign_number_skipped[OF s4] assign_number_skipped[OF s5] assign_number_skipped[OF s6]
      assign_number_skipped[OF s7]
    by metis
qed

lemma humanoid_returns:
  assumes "assignable H (dict_get d ''armStretch'')" "assignable H (dict_get d ''legStretch'')"
    "assignable H (dict_get d ''upperArmTwist'')" "assignable H (dict_get d ''lowerArmTwist'')"
    "assignable H (dict_get d ''upperLegTwist'')" "assignable H (dict_get d ''lowerLegTwist'')"
    "assignable H (dict_get d ''feetSpacing'')"
  shows "\<exists>h'. migrate_vrm0_humanoid H h (JObject d) = Inr h'"
  using assms by (simp add: migrate_vrm0_humanoid_def assign_number_assignable and_then_Inr_left)

end
